theory Spec2Isabelle
  imports Complex_Main "HOL-Library.Word"
begin

section \<open>JavaScript values reaching the route handlers\<close>

text \<open>
  A JavaScript string is a sequence of UTF-16 code units; \<open>.length\<close> counts code units.
\<close>

type_synonym code_unit = "16 word"
type_synonym jsstring = "code_unit list"

text \<open>An ASCII literal of the source, as code units.\<close>

definition lit :: "string \<Rightarrow> jsstring" where
  "lit s = map of_char s"

text \<open>
  What \<open>express.urlencoded({ extended: true })\<close>, \<open>express.json()\<close>, the query parser and
  the router put into \<open>req.body\<close>, \<open>req.query\<close> and \<open>req.params\<close>: a missing key reads as
  \<open>undefined\<close>; a form field is a string, a repeated field an array, a bracketed field an
  object; a JSON body may also hold \<open>null\<close>, booleans and numbers. An object is the list
  of its own properties, none of which is a function. Numbers are the integers (a JSON
  number with a fraction is outside this model).
\<close>

datatype jsval =
    JUndefined
  | JNull
  | JBool bool
  | JNum int
  | JStr jsstring
  | JArr "jsval list"
  | JObj "(jsstring \<times> jsval) list"

text \<open>
  The result of \<open>Math.ceil(count / limit)\<close>: an integer, or what a division by zero
  gives (\<open>0 / 0\<close> is NaN, \<open>n / 0\<close> is Infinity for \<open>n > 0\<close>).
\<close>

datatype jsnum = Num int | NaN | Infinity

text \<open>ToBoolean: what \<open>!v\<close>, \<open>v ? a : b\<close>, \<open>v || d\<close> and \<open>if (v)\<close> test.\<close>

fun truthy :: "jsval \<Rightarrow> bool" where
  "truthy JUndefined = False"
| "truthy JNull = False"
| "truthy (JBool b) = b"
| "truthy (JNum n) = (n \<noteq> 0)"
| "truthy (JStr s) = (s \<noteq> [])"
| "truthy (JArr xs) = True"
| "truthy (JObj ps) = True"

fun dec_digits :: "nat \<Rightarrow> jsstring" where
  "dec_digits n =
     (if n < 10 then [of_nat (48 + n)]
      else dec_digits (n div 10) @ [of_nat (48 + n mod 10)])"

declare dec_digits.simps [simp del]

definition int_toString :: "int \<Rightarrow> jsstring" where
  "int_toString n = (if n < 0 then lit ''-'' @ dec_digits (nat (- n)) else dec_digits (nat n))"

fun join_comma :: "jsstring list \<Rightarrow> jsstring" where
  "join_comma [] = []"
| "join_comma [s] = s"
| "join_comma (s # t # ss) = s @ lit '','' @ join_comma (t # ss)"

text \<open>
  What the handlers' \<open>try\<close> blocks can throw: a TypeError of the language (calling
  \<open>.trim()\<close> on a value that has no such method, converting to a string an object that
  has no usable \<open>toString\<close>) or a rejection of a storage call. Both carry
  \<open>error.message\<close>.
\<close>

datatype js_error = TypeError jsstring | StorageError jsstring

fun message :: "js_error \<Rightarrow> jsstring" where
  "message (TypeError m) = m"
| "message (StorageError m) = m"

text \<open>Sequencing of evaluations that may throw: the first throw ends the evaluation.\<close>

definition bind_result :: "js_error + 'a \<Rightarrow> ('a \<Rightarrow> js_error + 'b) \<Rightarrow> js_error + 'b" where
  "bind_result r f = (case r of Inl e \<Rightarrow> Inl e | Inr x \<Rightarrow> f x)"

fun collect_results :: "(js_error + 'a) list \<Rightarrow> js_error + 'a list" where
  "collect_results [] = Inr []"
| "collect_results (Inl e # rs) = Inl e"
| "collect_results (Inr x # rs) =
     (case collect_results rs of Inl e \<Rightarrow> Inl e | Inr xs \<Rightarrow> Inr (x # xs))"

text \<open>
  ToString, as a template literal \<open>`${v}`\<close> and \<open>parseInt(v)\<close> apply it. An array joins
  the strings of its elements with commas, from left to right, \<open>undefined\<close> and \<open>null\<close>
  elements giving the empty string. An object with no own \<open>toString\<close> property gives
  \<open>[object Object]\<close>; with one, which is never a function, the conversion finds no
  primitive value and throws. The decimal rendering of a number is JavaScript's for
  magnitudes below \<open>2^53\<close> (see \<open>safe_numbers\<close>); beyond, JavaScript prints the shortest
  digits of the double and, from \<open>10^21\<close>, an exponent.
\<close>

fun toString :: "jsval \<Rightarrow> js_error + jsstring" where
  "toString JUndefined = Inr (lit ''undefined'')"
| "toString JNull = Inr (lit ''null'')"
| "toString (JBool b) = Inr (if b then lit ''true'' else lit ''false'')"
| "toString (JNum n) = Inr (int_toString n)"
| "toString (JStr s) = Inr s"
| "toString (JArr xs) =
     (case collect_results
             (map (\<lambda>x. if x = JUndefined \<or> x = JNull then Inr [] else toString x) xs) of
        Inl e \<Rightarrow> Inl e
      | Inr ss \<Rightarrow> Inr (join_comma ss))"
| "toString (JObj ps) =
     (if lit ''toString'' \<in> fst ` set ps
      then Inl (TypeError (lit ''Cannot convert object to primitive value''))
      else Inr (lit ''[object Object]''))"

text \<open>
  The values whose numbers are all of magnitude below \<open>2^53\<close>, on which \<open>toString\<close> is
  JavaScript's. The conversion never looks into an object.
\<close>

fun safe_numbers :: "jsval \<Rightarrow> bool" where
  "safe_numbers (JNum n) = (\<bar>n\<bar> < 2 ^ 53)"
| "safe_numbers (JArr xs) = (\<forall>x \<in> set xs. safe_numbers x)"
| "safe_numbers v = True"

text \<open>
  The code units \<open>String.prototype.trim\<close> strips and \<open>parseInt\<close> skips: ECMAScript's
  WhiteSpace and LineTerminator (tab, LF, VT, FF, CR, space, U+00A0, U+1680,
  U+2000 to U+200A, U+2028, U+2029, U+202F, U+205F, U+3000, U+FEFF).
\<close>

definition is_ws :: "code_unit \<Rightarrow> bool" where
  "is_ws c \<longleftrightarrow>
     c \<in> set [0x09, 0x0A, 0x0B, 0x0C, 0x0D, 0x20, 0xA0, 0x1680,
               0x2028, 0x2029, 0x202F, 0x205F, 0x3000, 0xFEFF]
     \<or> (0x2000 \<le> c \<and> c \<le> 0x200A)"

definition trim :: "jsstring \<Rightarrow> jsstring" where
  "trim s = rev (dropWhile is_ws (rev (dropWhile is_ws s)))"

text \<open>
  The method call \<open>v.trim()\<close> on the variable named \<open>x\<close>: only a string has the method.
\<close>

fun trim_call :: "string \<Rightarrow> jsval \<Rightarrow> js_error + jsstring" where
  "trim_call x (JStr s) = Inr (trim s)"
| "trim_call x JUndefined =
     Inl (TypeError (lit ''Cannot read properties of undefined (reading 'trim')''))"
| "trim_call x JNull =
     Inl (TypeError (lit ''Cannot read properties of null (reading 'trim')''))"
| "trim_call x v = Inl (TypeError (lit x @ lit ''.trim is not a function''))"

text \<open>The value of a digit in the given radix, if the code unit is one.\<close>

definition digit_val :: "nat \<Rightarrow> code_unit \<Rightarrow> nat option" where
  "digit_val radix c =
     (let v = (if 0x30 \<le> c \<and> c \<le> 0x39 then Some (unat c - 48)
               else if 0x61 \<le> c \<and> c \<le> 0x7A then Some (unat c - 87)
               else if 0x41 \<le> c \<and> c \<le> 0x5A then Some (unat c - 55)
               else None)
      in case v of None \<Rightarrow> None | Some d \<Rightarrow> if d < radix then Some d else None)"

text \<open>
  \<open>parseInt(v)\<close> with no radix: ToString, which may throw; then skip leading white
  space, an optional sign, an optional \<open>0x\<close>/\<open>0X\<close> prefix selecting radix 16, and read the
  longest run of digits; no digit gives NaN, which is \<open>None\<close> here. The value is exact
  here; JavaScript's is the nearest double (equal below \<open>2^53\<close>), and \<open>-0\<close> is \<open>0\<close>.
\<close>

definition parseInt_string :: "jsstring \<Rightarrow> int option" where
  "parseInt_string inputString =
     (let s = dropWhile is_ws inputString;
          neg = (s \<noteq> [] \<and> hd s = 0x2D);
          s1 = (if s \<noteq> [] \<and> (hd s = 0x2B \<or> hd s = 0x2D) then tl s else s);
          hex = (length s1 \<ge> 2 \<and> hd s1 = 0x30 \<and> (s1 ! 1 = 0x78 \<or> s1 ! 1 = 0x58));
          radix = (if hex then 16 else 10);
          s2 = (if hex then drop 2 s1 else s1);
          z = takeWhile (\<lambda>c. digit_val radix c \<noteq> None) s2;
          mathInt = foldl (\<lambda>a c. a * radix + the (digit_val radix c)) 0 z
      in if z = [] then None
         else Some ((if neg then - 1 else 1) * int mathInt))"

definition parseInt :: "jsval \<Rightarrow> js_error + int option" where
  "parseInt v = bind_result (toString v) (\<lambda>inputString. Inr (parseInt_string inputString))"

text \<open>\<open>parseInt(v) || d\<close>: \<open>NaN\<close> and \<open>0\<close> are falsy, every other number is kept.\<close>

definition or_default :: "int option \<Rightarrow> int \<Rightarrow> int" where
  "or_default p d = (case p of None \<Rightarrow> d | Some n \<Rightarrow> if n = 0 then d else n)"

text \<open>
  \<open>Math.ceil(count / limit)\<close> on integers, with JavaScript's division by zero. The
  quotient is exact here; JavaScript's double gives the same ceiling for a count below
  \<open>2^53\<close>.
\<close>

definition math_ceil_div :: "int \<Rightarrow> int \<Rightarrow> jsnum" where
  "math_ceil_div count limit =
     (if limit = 0 then (if count = 0 then NaN else Infinity)
      else Num \<lceil>real_of_int count / real_of_int limit\<rceil>)"

section \<open>The world of a request: storage and console\<close>

record user_row =
  u_id :: nat
  u_name :: jsstring
  u_occupation :: "jsstring option"
  u_newsletter :: bool
  u_createdAt :: int

record address_row =
  a_id :: nat
  a_street :: jsstring
  a_number :: "jsstring option"
  a_city :: jsstring
  a_userId :: jsval
  a_createdAt :: int

text \<open>
  A line written by \<open>console.log\<close> (a message, or a message and a row's \<open>toJSON()\<close>) or
  by \<open>console.error\<close> (a message and the caught error).
\<close>

datatype log_entry =
    Log jsstring
  | LogUser jsstring user_row
  | LogAddress jsstring address_row
  | LogError jsstring js_error

text \<open>
  The two tables, the identifiers and the time the storage gives to the next created rows,
  the console, and \<open>faults\<close>: the fate of the storage calls to come, one entry a call,
  \<open>Some m\<close> for a call that is rejected with message \<open>m\<close> (no entry left: no failure).
\<close>

record world =
  user_rows :: "user_row list"
  address_rows :: "address_row list"
  next_user_id :: nat
  next_address_id :: nat
  clock :: int
  faults :: "jsstring option list"
  console :: "log_entry list"

text \<open>
  An \<open>async\<close> computation awaited in sequence: it changes the world and either returns or
  throws.
\<close>

type_synonym 'a io = "world \<Rightarrow> (js_error + 'a) \<times> world"

definition io_return :: "'a \<Rightarrow> 'a io" where
  "io_return x w = (Inr x, w)"

definition io_lift :: "js_error + 'a \<Rightarrow> 'a io" where
  "io_lift r w = (r, w)"

definition io_bind :: "'a io \<Rightarrow> ('a \<Rightarrow> 'b io) \<Rightarrow> 'b io" where
  "io_bind m f w = (case m w of (Inl e, w') \<Rightarrow> (Inl e, w') | (Inr x, w') \<Rightarrow> f x w')"

text \<open>\<open>try { body } catch (error) { handler }\<close>.\<close>

definition try_catch :: "'a io \<Rightarrow> (js_error \<Rightarrow> 'a io) \<Rightarrow> 'a io" where
  "try_catch body handler w =
     (case body w of (Inl e, w') \<Rightarrow> handler e w' | (Inr x, w') \<Rightarrow> (Inr x, w'))"

definition console_out :: "log_entry \<Rightarrow> unit io" where
  "console_out e w = (Inr (), w\<lparr>console := console w @ [e]\<rparr>)"

subsection \<open>The storage backend\<close>

text \<open>
  Modelled from the spec: the models \<open>./models/User\<close>, \<open>./models/Address\<close>, the connection
  \<open>./db/conn\<close> and the relational store behind them are not among the sources. The spec
  gives the storage "count+fetch-with-filter-sort-limit-offset,
  fetch-by-id-with-related-collection, create, update-by-filter, delete-by-filter", ids
  "generated by storage on create", \<open>createdAt\<close> "set on create", and storage failures
  that the handlers catch. A storage call consumes one entry of \<open>faults\<close>.
\<close>

definition storage_call :: "(world \<Rightarrow> 'a \<times> world) \<Rightarrow> 'a io" where
  "storage_call f w =
     (case faults w of
        [] \<Rightarrow> (case f w of (x, w') \<Rightarrow> (Inr x, w'))
      | None # fs \<Rightarrow> (case f (w\<lparr>faults := fs\<rparr>) of (x, w') \<Rightarrow> (Inr x, w'))
      | Some m # fs \<Rightarrow> (Inl (StorageError m), w\<lparr>faults := fs\<rparr>))"

text \<open>
  Modelled from the spec: a filter \<open>{ id }\<close> or \<open>{ userId: id }\<close> selects the rows whose
  key "equals" the submitted identifier. Identifiers arrive as strings and generated keys
  are numbers, so two keys are equal when they are written the same; a value that cannot
  be written equals none.
\<close>

definition key_eq :: "jsval \<Rightarrow> jsval \<Rightarrow> bool" where
  "key_eq a b \<longleftrightarrow>
     (case (toString a, toString b) of (Inr x, Inr y) \<Rightarrow> x = y | _ \<Rightarrow> False)"

text \<open>
  Modelled from the spec: the operator \<open>Op.like\<close> of the store, with \<open>%\<close> for any run of
  characters and \<open>_\<close> for any one character, case-sensitive; on the pattern \<open>%q%\<close> with no
  wildcard in \<open>q\<close> it is the spec's "User.name containing q as a substring".
\<close>

fun sql_like :: "jsstring \<Rightarrow> jsstring \<Rightarrow> bool" where
  "sql_like [] s = (s = [])"
| "sql_like (p # ps) [] = (p = 0x25 \<and> sql_like ps [])"
| "sql_like (p # ps) (c # cs) =
     (if p = 0x25 then sql_like ps (c # cs) \<or> sql_like (p # ps) cs
      else (p = 0x5F \<or> p = c) \<and> sql_like ps cs)"

text \<open>The \<open>where\<close> object of the listing: a key that was not set is \<open>None\<close>.\<close>

record user_where =
  w_name_like :: "jsstring option"
  w_newsletter :: "bool option"

record find_options =
  fo_where :: user_where
  fo_limit :: int
  fo_offset :: int

text \<open>
  Modelled from the spec: which rows a \<open>where\<close> object selects, "if q present, match
  User.name containing q", "if newsletter present, match User.newsletter equal to" it.
\<close>

definition user_matches :: "user_where \<Rightarrow> user_row \<Rightarrow> bool" where
  "user_matches wh u \<longleftrightarrow>
     (case w_name_like wh of None \<Rightarrow> True | Some p \<Rightarrow> sql_like p (u_name u)) \<and>
     (case w_newsletter wh of None \<Rightarrow> True | Some b \<Rightarrow> u_newsletter u = b)"

text \<open>
  Modelled from the spec: \<open>User.findAndCountAll\<close> with \<open>order: [['createdAt', 'DESC']]\<close>,
  "total matching row count, and the page's rows ordered by createdAt descending,
  offset/limited". A negative limit or offset, on which the spec is silent, selects as
  zero does.
\<close>

definition User_findAndCountAll :: "find_options \<Rightarrow> (user_row list \<times> nat) io" where
  "User_findAndCountAll opts =
     storage_call (\<lambda>w.
       let matching = filter (user_matches (fo_where opts)) (user_rows w);
           ordered = sort_key (\<lambda>u. - u_createdAt u) matching
       in ((take (nat (fo_limit opts)) (drop (nat (fo_offset opts)) ordered),
            length matching), w))"

text \<open>The object given to \<open>User.create\<close> and \<open>User.update\<close>.\<close>

record user_data =
  ud_name :: jsstring
  ud_occupation :: "jsstring option"
  ud_newsletter :: bool

text \<open>Modelled from the spec: \<open>User.create\<close>, the new row with a generated id.\<close>

definition User_create :: "user_data \<Rightarrow> user_row io" where
  "User_create d =
     storage_call (\<lambda>w.
       let u = \<lparr>u_id = next_user_id w, u_name = ud_name d, u_occupation = ud_occupation d,
                u_newsletter = ud_newsletter d, u_createdAt = clock w\<rparr>
       in (u, w\<lparr>user_rows := user_rows w @ [u], next_user_id := Suc (next_user_id w)\<rparr>))"

text \<open>
  Modelled from the spec: \<open>User.findByPk\<close> with the addresses included, "fetch the User;
  if found, eagerly attach its Address collection (for the edit view, ordered by createdAt
  descending)"; \<open>None\<close> is the \<open>null\<close> of a user that is not there.
\<close>

definition User_findByPk :: "jsval \<Rightarrow> bool \<Rightarrow> (user_row \<times> address_row list) option io" where
  "User_findByPk pk desc =
     storage_call (\<lambda>w.
       (case filter (\<lambda>u. key_eq pk (JNum (int (u_id u)))) (user_rows w) of
          [] \<Rightarrow> None
        | u # _ \<Rightarrow>
            let owned = filter (\<lambda>a. key_eq (JNum (int (u_id u))) (a_userId a)) (address_rows w)
            in Some (u, if desc then sort_key (\<lambda>a. - a_createdAt a) owned else owned),
        w))"

text \<open>
  Modelled from the spec: \<open>User.update(data, { where: { id } })\<close>, "update-by-filter";
  the result is the number of rows the filter selected.
\<close>

definition User_update :: "user_data \<Rightarrow> jsval \<Rightarrow> nat io" where
  "User_update d pk =
     storage_call (\<lambda>w.
       let hit = (\<lambda>u. key_eq pk (JNum (int (u_id u))))
       in (length (filter hit (user_rows w)),
           w\<lparr>user_rows := map (\<lambda>u. if hit u
                                then u\<lparr>u_name := ud_name d, u_occupation := ud_occupation d,
                                       u_newsletter := ud_newsletter d\<rparr>
                                else u) (user_rows w)\<rparr>))"

text \<open>Modelled from the spec: \<open>User.destroy({ where: { id } })\<close>, "delete-by-filter".\<close>

definition User_destroy :: "jsval \<Rightarrow> nat io" where
  "User_destroy pk =
     storage_call (\<lambda>w.
       let hit = (\<lambda>u. key_eq pk (JNum (int (u_id u))))
       in (length (filter hit (user_rows w)), w\<lparr>user_rows := filter (\<lambda>u. \<not> hit u) (user_rows w)\<rparr>))"

text \<open>The object given to \<open>Address.create\<close>.\<close>

record address_data =
  ad_street :: jsstring
  ad_number :: "jsstring option"
  ad_city :: jsstring
  ad_userId :: jsval

text \<open>Modelled from the spec: \<open>Address.create\<close>, the new row with a generated id.\<close>

definition Address_create :: "address_data \<Rightarrow> address_row io" where
  "Address_create d =
     storage_call (\<lambda>w.
       let a = \<lparr>a_id = next_address_id w, a_street = ad_street d, a_number = ad_number d,
                a_city = ad_city d, a_userId = ad_userId d, a_createdAt = clock w\<rparr>
       in (a, w\<lparr>address_rows := address_rows w @ [a],
                 next_address_id := Suc (next_address_id w)\<rparr>))"

text \<open>The two filters the handlers give to \<open>Address.destroy\<close>.\<close>

datatype address_where = WhereUserId jsval | WhereId jsval

text \<open>
  Modelled from the spec: which rows the filter selects, "Address rows whose userId equals
  id" and "the Address row matching id".
\<close>

fun address_matches :: "address_where \<Rightarrow> address_row \<Rightarrow> bool" where
  "address_matches (WhereUserId v) a = key_eq v (a_userId a)"
| "address_matches (WhereId v) a = key_eq v (JNum (int (a_id a)))"

text \<open>Modelled from the spec: \<open>Address.destroy({ where })\<close>, "delete-by-filter".\<close>

definition Address_destroy :: "address_where \<Rightarrow> nat io" where
  "Address_destroy wh =
     storage_call (\<lambda>w.
       (length (filter (address_matches wh) (address_rows w)),
        w\<lparr>address_rows := filter (\<lambda>a. \<not> address_matches wh a) (address_rows w)\<rparr>))"

section \<open>Requests and responses\<close>

text \<open>
  The fields the user routes read from \<open>req.body\<close>; a field that was not sent is
  \<open>JUndefined\<close>. The same shape is the \<open>formData\<close> the create form is rendered with.
\<close>

record user_body =
  b_id :: jsval
  b_name :: jsval
  b_occupation :: jsval
  b_newsletter :: jsval

record address_create_body =
  ac_userId :: jsval
  ac_street :: jsval
  ac_number :: jsval
  ac_city :: jsval

record address_delete_body =
  adl_id :: jsval
  adl_userId :: jsval

text \<open>The fields the listing reads from \<open>req.query\<close>.\<close>

record home_query =
  hq_page :: jsval
  hq_limit :: jsval
  hq_q :: jsval
  hq_newsletter :: jsval

text \<open>
  The data object given to \<open>res.render\<close>: a key the handler did not set is \<open>None\<close>
  (\<open>JUndefined\<close> for the two echoed query values).
\<close>

record view_data =
  vd_users :: "user_row list option"
  vd_currentPage :: "int option"
  vd_totalPages :: "jsnum option"
  vd_q :: jsval
  vd_newsletter :: jsval
  vd_error :: "jsstring option"
  vd_formData :: "user_body option"
  vd_user :: "(user_row \<times> address_row list) option"

definition empty_view :: view_data where
  "empty_view =
     \<lparr>vd_users = None, vd_currentPage = None, vd_totalPages = None, vd_q = JUndefined,
      vd_newsletter = JUndefined, vd_error = None, vd_formData = None, vd_user = None\<rparr>"

text \<open>\<open>res.render(template, data)\<close> and \<open>res.redirect(url)\<close>.\<close>

datatype response = Render string view_data | Redirect jsstring

subsection \<open>Words of the messages that are not ASCII\<close>

definition usuario :: jsstring where
  "usuario = lit ''usu'' @ [0xE1] @ lit ''rio''"

definition Usuario :: jsstring where
  "Usuario = lit ''Usu'' @ [0xE1] @ lit ''rio''"

definition endereco :: jsstring where
  "endereco = lit ''endere'' @ [0xE7] @ lit ''o''"

definition Endereco :: jsstring where
  "Endereco = lit ''Endere'' @ [0xE7] @ lit ''o''"

definition nao :: jsstring where
  "nao = lit ''n'' @ [0xE3] @ lit ''o''"

definition edicao :: jsstring where
  "edicao = lit ''edi'' @ [0xE7, 0xE3] @ lit ''o''"

definition excluido :: jsstring where
  "excluido = lit ''exclu'' @ [0xED] @ lit ''do''"

section \<open>The route handlers\<close>

text \<open>\<open>!v || v.trim().length < n\<close>, for the variable named \<open>x\<close>.\<close>

definition absent_or_shorter :: "string \<Rightarrow> jsval \<Rightarrow> nat \<Rightarrow> js_error + bool" where
  "absent_or_shorter x v n =
     (if \<not> truthy v then Inr True
      else case trim_call x v of Inl e \<Rightarrow> Inl e | Inr s \<Rightarrow> Inr (length s < n))"

text \<open>\<open>a || b\<close> on two conditions that may throw: \<open>b\<close> is evaluated only when \<open>a\<close> is false.\<close>

definition or_else :: "js_error + bool \<Rightarrow> js_error + bool \<Rightarrow> js_error + bool" where
  "or_else a b = (case a of Inl e \<Rightarrow> Inl e | Inr True \<Rightarrow> Inr True | Inr False \<Rightarrow> b)"

text \<open>\<open>v ? v.trim() : null\<close>, for the variable named \<open>x\<close>; \<open>None\<close> is \<open>null\<close>.\<close>

definition trim_or_null :: "string \<Rightarrow> jsval \<Rightarrow> js_error + jsstring option" where
  "trim_or_null x v =
     (if truthy v
      then (case trim_call x v of Inl e \<Rightarrow> Inl e | Inr s \<Rightarrow> Inr (Some s))
      else Inr None)"

text \<open>
  The object literal of \<open>userData\<close> (create) and \<open>updateData\<close> (update):
  \<open>{ name: name.trim(), occupation: occupation ? occupation.trim() : null,
  newsletter: newsletter === 'on' }\<close>, its properties evaluated in this order.
\<close>

definition user_data_of :: "jsval \<Rightarrow> jsval \<Rightarrow> jsval \<Rightarrow> js_error + user_data" where
  "user_data_of name occupation newsletter =
     (case trim_call ''name'' name of
        Inl e \<Rightarrow> Inl e
      | Inr n \<Rightarrow>
          (case trim_or_null ''occupation'' occupation of
             Inl e \<Rightarrow> Inl e
           | Inr occ \<Rightarrow>
               Inr \<lparr>ud_name = n, ud_occupation = occ,
                    ud_newsletter = (newsletter = JStr (lit ''on''))\<rparr>))"

text \<open>
  The object literal given to \<open>Address.create\<close>: \<open>{ street: street.trim(),
  number: number ? number.trim() : null, city: city.trim(), userId }\<close>.
\<close>

definition address_data_of :: "jsval \<Rightarrow> jsval \<Rightarrow> jsval \<Rightarrow> jsval \<Rightarrow> js_error + address_data"
  where
  "address_data_of street number' city userId =
     (case trim_call ''street'' street of
        Inl e \<Rightarrow> Inl e
      | Inr st \<Rightarrow>
          (case trim_or_null ''number'' number' of
             Inl e \<Rightarrow> Inl e
           | Inr nu \<Rightarrow>
               (case trim_call ''city'' city of
                  Inl e \<Rightarrow> Inl e
                | Inr ci \<Rightarrow>
                    Inr \<lparr>ad_street = st, ad_number = nu, ad_city = ci, ad_userId = userId\<rparr>)))"

subsection \<open>GET /\<close>

text \<open>
  The constants of the handler, in the order the source evaluates them: \<open>page\<close>,
  \<open>limit\<close>, \<open>offset\<close>, \<open>where\<close>. \<open>parseInt\<close> and the template literal \<open>`%${q}%`\<close> may
  throw.
\<close>

definition home_page :: "home_query \<Rightarrow> js_error + int" where
  "home_page query = bind_result (parseInt (hq_page query)) (\<lambda>n. Inr (or_default n 1))"

definition home_limit :: "home_query \<Rightarrow> js_error + int" where
  "home_limit query = bind_result (parseInt (hq_limit query)) (\<lambda>n. Inr (or_default n 3))"

definition home_offset :: "home_query \<Rightarrow> js_error + int" where
  "home_offset query =
     bind_result (home_page query) (\<lambda>page.
       bind_result (home_limit query) (\<lambda>limit. Inr ((page - 1) * limit)))"

definition home_where :: "home_query \<Rightarrow> js_error + user_where" where
  "home_where query =
     bind_result
       (if truthy (hq_q query)
        then bind_result (toString (hq_q query)) (\<lambda>q. Inr (Some (lit ''%'' @ q @ lit ''%'')))
        else Inr None)
       (\<lambda>name_like.
          Inr \<lparr>w_name_like = name_like,
               w_newsletter =
                 (if truthy (hq_newsletter query)
                  then Some (hq_newsletter query = JStr (lit ''true''))
                  else None)\<rparr>)"

definition home :: "home_query \<Rightarrow> response io" where
  "home query =
     try_catch
       (io_bind (io_lift (home_page query))
          (\<lambda>page.
             io_bind (io_lift (home_limit query))
               (\<lambda>limit.
                  io_bind (io_lift (home_offset query))
                    (\<lambda>offset.
                       io_bind (io_lift (home_where query))
                         (\<lambda>where'.
                            io_bind
                              (User_findAndCountAll
                                 \<lparr>fo_where = where', fo_limit = limit, fo_offset = offset\<rparr>)
                              (\<lambda>(users', count).
                                 io_return
                                   (Render ''home''
                                      (empty_view
                                         \<lparr>vd_users := Some users',
                                          vd_currentPage := Some page,
                                          vd_totalPages :=
                                            Some (math_ceil_div (int count) limit),
                                          vd_q := hq_q query,
                                          vd_newsletter := hq_newsletter query\<rparr>))))))))
       (\<lambda>error.
          io_bind (console_out (LogError (lit ''Erro ao carregar '' @ usuario @ lit ''s:'') error))
            (\<lambda>_. io_return
               (Render ''home''
                  (empty_view
                     \<lparr>vd_users := Some [],
                      vd_error := Some (lit ''Erro ao carregar '' @ usuario @ lit ''s'')\<rparr>))))"

subsection \<open>POST /users/create\<close>

definition users_create :: "user_body \<Rightarrow> response io" where
  "users_create body =
     try_catch
       (let name = b_name body; occupation = b_occupation body;
            newsletter = b_newsletter body
        in io_bind (io_lift (absent_or_shorter ''name'' name 2))
             (\<lambda>invalid.
                if invalid
                then io_return
                       (Render ''adduser''
                          (empty_view
                             \<lparr>vd_error := Some (lit ''Nome deve ter pelo menos 2 caracteres''),
                              vd_formData :=
                                Some \<lparr>b_id = JUndefined, b_name = name,
                                      b_occupation = occupation,
                                      b_newsletter = newsletter\<rparr>\<rparr>))
                else io_bind (io_lift (user_data_of name occupation newsletter))
                       (\<lambda>userData.
                          io_bind (User_create userData)
                            (\<lambda>user.
                               io_bind (console_out (LogUser (Usuario @ lit '' criado:'') user))
                                 (\<lambda>_. io_return (Redirect (lit ''/'')))))))
       (\<lambda>error.
          io_bind (console_out (LogError (lit ''Erro ao criar '' @ usuario @ lit '':'') error))
            (\<lambda>_. io_return
               (Render ''adduser''
                  (empty_view
                     \<lparr>vd_error :=
                        Some (lit ''Erro ao criar '' @ usuario @ lit '': '' @ message error),
                      vd_formData := Some body\<rparr>))))"

subsection \<open>GET /users/:id\<close>

definition users_show :: "jsstring \<Rightarrow> response io" where
  "users_show id' =
     try_catch
       (io_bind (User_findByPk (JStr id') False)
          (\<lambda>user.
             case user of
               None \<Rightarrow>
                 io_return
                   (Render ''userview''
                      (empty_view
                         \<lparr>vd_error := Some (Usuario @ lit '' '' @ nao @ lit '' encontrado'')\<rparr>))
             | Some u \<Rightarrow> io_return (Render ''userview'' (empty_view\<lparr>vd_user := Some u\<rparr>))))
       (\<lambda>error.
          io_bind (console_out (LogError (lit ''Erro ao buscar '' @ usuario @ lit '':'') error))
            (\<lambda>_. io_return
               (Render ''userview''
                  (empty_view\<lparr>vd_error := Some (lit ''Erro ao carregar '' @ usuario)\<rparr>))))"

subsection \<open>GET /users/edit/:id\<close>

definition users_edit :: "jsstring \<Rightarrow> response io" where
  "users_edit id' =
     try_catch
       (io_bind (User_findByPk (JStr id') True)
          (\<lambda>user.
             case user of
               None \<Rightarrow> io_return (Redirect (lit ''/''))
             | Some u \<Rightarrow> io_return (Render ''useredit'' (empty_view\<lparr>vd_user := Some u\<rparr>))))
       (\<lambda>error.
          io_bind
            (console_out
               (LogError (lit ''Erro ao buscar '' @ usuario @ lit '' para '' @ edicao @ lit '':'')
                  error))
            (\<lambda>_. io_return (Redirect (lit ''/''))))"

subsection \<open>POST /users/update\<close>

text \<open>
  The template literals \<open>`/users/edit/${id}`\<close>, \<open>`... ${id} atualizado com sucesso`\<close>
  and \<open>`/users/edit/${req.body.id || ''}`\<close> convert the id to a string and may throw; the
  last one stands in the \<open>catch\<close> block, where a throw leaves the handler.
\<close>

definition users_update :: "user_body \<Rightarrow> response io" where
  "users_update body =
     try_catch
       (let id' = b_id body; name = b_name body; occupation = b_occupation body;
            newsletter = b_newsletter body
        in io_bind (io_lift (absent_or_shorter ''name'' name 2))
             (\<lambda>invalid.
                if invalid
                then io_bind (io_lift (toString id'))
                       (\<lambda>i. io_return (Redirect (lit ''/users/edit/'' @ i)))
                else io_bind (io_lift (user_data_of name occupation newsletter))
                       (\<lambda>updateData.
                          io_bind (User_update updateData id')
                            (\<lambda>updatedRows.
                               io_bind
                                 (if updatedRows > 0
                                  then io_bind (io_lift (toString id'))
                                         (\<lambda>i. console_out
                                                 (Log (Usuario @ lit '' '' @ i
                                                       @ lit '' atualizado com sucesso'')))
                                  else io_return ())
                                 (\<lambda>_. io_return (Redirect (lit ''/'')))))))
       (\<lambda>error.
          io_bind (console_out (LogError (lit ''Erro ao atualizar '' @ usuario @ lit '':'') error))
            (\<lambda>_. io_bind
               (io_lift (if truthy (b_id body) then toString (b_id body) else Inr []))
               (\<lambda>i. io_return (Redirect (lit ''/users/edit/'' @ i)))))"

subsection \<open>POST /users/delete/:id\<close>

definition users_delete :: "jsstring \<Rightarrow> response io" where
  "users_delete id' =
     try_catch
       (io_bind (Address_destroy (WhereUserId (JStr id')))
          (\<lambda>_. io_bind (User_destroy (JStr id'))
             (\<lambda>deletedRows.
                io_bind
                  (if deletedRows > 0
                   then console_out
                          (Log (Usuario @ lit '' '' @ id' @ lit '' e seus '' @ endereco
                                @ lit ''s foram '' @ excluido @ lit ''s''))
                   else io_return ())
                  (\<lambda>_. io_return (Redirect (lit ''/''))))))
       (\<lambda>error.
          io_bind (console_out (LogError (lit ''Erro ao excluir '' @ usuario @ lit '':'') error))
            (\<lambda>_. io_return (Redirect (lit ''/''))))"

subsection \<open>POST /address/create\<close>

text \<open>
  The template literals \<open>`/users/edit/${userId}`\<close> (twice, the second after the row is
  stored) and \<open>`/users/edit/${req.body.userId || ''}`\<close> (in the \<open>catch\<close> block) convert
  the userId to a string and may throw.
\<close>

definition address_create :: "address_create_body \<Rightarrow> response io" where
  "address_create body =
     try_catch
       (let userId = ac_userId body; street = ac_street body; number' = ac_number body;
            city = ac_city body
        in io_bind
             (io_lift
                (or_else (absent_or_shorter ''street'' street 5)
                   (absent_or_shorter ''city'' city 2)))
             (\<lambda>invalid.
                if invalid
                then io_bind (io_lift (toString userId))
                       (\<lambda>u. io_return (Redirect (lit ''/users/edit/'' @ u)))
                else io_bind (io_lift (address_data_of street number' city userId))
                       (\<lambda>data.
                          io_bind (Address_create data)
                            (\<lambda>address.
                               io_bind
                                 (console_out (LogAddress (Endereco @ lit '' criado:'') address))
                                 (\<lambda>_. io_bind (io_lift (toString userId))
                                    (\<lambda>u. io_return
                                       (Redirect (lit ''/users/edit/'' @ u))))))))
       (\<lambda>error.
          io_bind (console_out (LogError (lit ''Erro ao criar '' @ endereco @ lit '':'') error))
            (\<lambda>_. io_bind
               (io_lift
                  (if truthy (ac_userId body) then toString (ac_userId body) else Inr []))
               (\<lambda>u. io_return (Redirect (lit ''/users/edit/'' @ u)))))"

subsection \<open>POST /address/delete\<close>

text \<open>
  The template literal of the console line, with \<open>${id}\<close>, and
  \<open>`/users/edit/${userId}`\<close> convert the id and the userId to strings and may throw; the
  second is evaluated only for a truthy userId.
\<close>

definition address_delete :: "address_delete_body \<Rightarrow> response io" where
  "address_delete body =
     try_catch
       (let id' = adl_id body; userId = adl_userId body
        in io_bind (Address_destroy (WhereId id'))
             (\<lambda>_. io_bind (io_lift (toString id'))
                (\<lambda>i. io_bind
                   (console_out (Log (Endereco @ lit '' '' @ i @ lit '' '' @ excluido)))
                   (\<lambda>_. io_bind
                      (io_lift
                         (if truthy userId
                          then bind_result (toString userId)
                                 (\<lambda>u. Inr (lit ''/users/edit/'' @ u))
                          else Inr (lit ''/'')))
                      (\<lambda>url. io_return (Redirect url))))))
       (\<lambda>error.
          io_bind (console_out (LogError (lit ''Erro ao excluir '' @ endereco @ lit '':'') error))
            (\<lambda>_. io_return (Redirect (lit ''/''))))"

section \<open>Stating the properties\<close>

text \<open>The next \<open>n\<close> storage calls are not rejected.\<close>

definition calls_ok :: "nat \<Rightarrow> world \<Rightarrow> bool" where
  "calls_ok n w \<longleftrightarrow> list_all (\<lambda>f. f = None) (take n (faults w))"

text \<open>
  A world to run the handlers on: five users created at times 10 to 50, four addresses of
  which three belong to user 1 and one to user 2, and no storage failure ahead.
\<close>

definition sample_world :: world where
  "sample_world =
     \<lparr>user_rows =
        [\<lparr>u_id = 1, u_name = lit ''Ana'', u_occupation = None, u_newsletter = False,
          u_createdAt = 10\<rparr>,
         \<lparr>u_id = 2, u_name = lit ''Bob'', u_occupation = Some (lit ''dev''),
          u_newsletter = True, u_createdAt = 20\<rparr>,
         \<lparr>u_id = 3, u_name = lit ''Caio'', u_occupation = None, u_newsletter = False,
          u_createdAt = 30\<rparr>,
         \<lparr>u_id = 4, u_name = lit ''Davi'', u_occupation = None, u_newsletter = True,
          u_createdAt = 40\<rparr>,
         \<lparr>u_id = 5, u_name = lit ''Eva'', u_occupation = None, u_newsletter = False,
          u_createdAt = 50\<rparr>],
      address_rows =
        [\<lparr>a_id = 1, a_street = lit ''Rua A'', a_number = None, a_city = lit ''Rio'',
          a_userId = JStr (lit ''1''), a_createdAt = 11\<rparr>,
         \<lparr>a_id = 2, a_street = lit ''Rua B'', a_number = Some (lit ''7''),
          a_city = lit ''Rio'', a_userId = JStr (lit ''2''), a_createdAt = 21\<rparr>,
         \<lparr>a_id = 3, a_street = lit ''Rua C'', a_number = None, a_city = lit ''Rio'',
          a_userId = JStr (lit ''1''), a_createdAt = 31\<rparr>,
         \<lparr>a_id = 4, a_street = lit ''Rua D'', a_number = None, a_city = lit ''Rio'',
          a_userId = JStr (lit ''1''), a_createdAt = 41\<rparr>],
      next_user_id = 6, next_address_id = 5, clock = 100, faults = [], console = []\<rparr>"

section \<open>Storage calls\<close>

lemmas io_defs = io_return_def io_lift_def io_bind_def try_catch_def console_out_def

lemma storage_call_ok:
  assumes "calls_ok (Suc n) w"
  shows "storage_call f w =
           (case f (w\<lparr>faults := tl (faults w)\<rparr>) of (x, w') \<Rightarrow> (Inr x, w'))"
proof (cases "faults w")
  case Nil
  then have same: "w\<lparr>faults := []\<rparr> = w" by (cases w) simp
  show ?thesis by (simp add: storage_call_def Nil) (simp only: same)
next
  case (Cons a fs)
  with assms show ?thesis by (simp add: calls_ok_def storage_call_def)
qed

lemma calls_ok_tl: "calls_ok (Suc n) w \<Longrightarrow> calls_ok n (w\<lparr>faults := tl (faults w)\<rparr>)"
  by (cases "faults w") (simp_all add: calls_ok_def)

lemma storage_call_fails:
  assumes "faults w = Some m # fs"
  shows "storage_call f w = (Inl (StorageError m), w\<lparr>faults := fs\<rparr>)"
  using assms by (simp add: storage_call_def)

lemma filter_none_iff: "(filter P xs = []) = (\<not> (\<exists>x \<in> set xs. P x))"
  by (auto simp: filter_empty_conv)

text \<open>Evaluating keys and strings on concrete data.\<close>

lemmas eval_defs = sample_world_def calls_ok_def key_eq_def lit_def trim_def is_ws_def
  int_toString_def dec_digits.simps bind_result_def Let_def

section \<open>The listing\<close>

lemma ceil_pages:
  fixes c l :: int
  assumes "0 < l"
  shows "c \<le> \<lceil>real_of_int c / real_of_int l\<rceil> * l \<and>
         (\<lceil>real_of_int c / real_of_int l\<rceil> - 1) * l < c"
proof -
  let ?t = "\<lceil>real_of_int c / real_of_int l\<rceil>"
  have l: "0 < real_of_int l" using assms by simp
  have cc: "real_of_int ?t - 1 < real_of_int c / real_of_int l \<and>
            real_of_int c / real_of_int l \<le> real_of_int ?t"
    by (rule ceiling_correct)
  from cc have "real_of_int c \<le> real_of_int ?t * real_of_int l"
    using l by (simp only: pos_divide_le_eq)
  then have "real_of_int c \<le> real_of_int (?t * l)" by (simp only: of_int_mult)
  then have a: "c \<le> ?t * l" by (simp only: of_int_le_iff)
  from cc have "(real_of_int ?t - 1) * real_of_int l < real_of_int c"
    using l by (simp only: pos_less_divide_eq)
  then have "real_of_int ((?t - 1) * l) < real_of_int c"
    by (simp only: of_int_mult of_int_diff of_int_1)
  then have b: "(?t - 1) * l < c" by (simp only: of_int_less_iff)
  from a b show ?thesis by simp
qed

text \<open>The handler once its constants are evaluated, and when one of them throws.\<close>

lemma home_built:
  assumes "home_page query = Inr p" and "home_limit query = Inr l"
    and "home_where query = Inr wh"
  shows "home query w =
     try_catch
       (io_bind
          (User_findAndCountAll \<lparr>fo_where = wh, fo_limit = l, fo_offset = (p - 1) * l\<rparr>)
          (\<lambda>(users', count).
             io_return
               (Render ''home''
                  (empty_view
                     \<lparr>vd_users := Some users', vd_currentPage := Some p,
                      vd_totalPages := Some (math_ceil_div (int count) l),
                      vd_q := hq_q query, vd_newsletter := hq_newsletter query\<rparr>))))
       (\<lambda>error.
          io_bind (console_out (LogError (lit ''Erro ao carregar '' @ usuario @ lit ''s:'') error))
            (\<lambda>_. io_return
               (Render ''home''
                  (empty_view
                     \<lparr>vd_users := Some [],
                      vd_error := Some (lit ''Erro ao carregar '' @ usuario @ lit ''s'')\<rparr>)))) w"
  using assms by (simp add: home_def home_offset_def bind_result_def io_defs)

lemma home_where_throws:
  assumes "home_page query = Inr p" and "home_limit query = Inr l"
    and "home_where query = Inl e"
  shows "home query w =
     (Inr (Render ''home''
             (empty_view
                \<lparr>vd_users := Some [],
                 vd_error := Some (lit ''Erro ao carregar '' @ usuario @ lit ''s'')\<rparr>)),
      w\<lparr>console := console w @
           [LogError (lit ''Erro ao carregar '' @ usuario @ lit ''s:'') e]\<rparr>)"
  using assms by (simp add: home_def home_offset_def bind_result_def io_defs)

lemma home_error_view:
  assumes "faults w = Some m # fs"
  shows "fst (home query w) =
     Inr (Render ''home''
            (empty_view
               \<lparr>vd_users := Some [],
                vd_error := Some (lit ''Erro ao carregar '' @ usuario @ lit ''s'')\<rparr>))"
  using assms
  by (simp add: home_def io_defs User_findAndCountAll_def storage_call_fails
      split: sum.splits prod.splits)

text \<open>
  Claim C2. Take a listing request whose page and limit parse to integers \<open>p \<ge> 1\<close> and
  \<open>l \<ge> 1\<close>, and a storage that accepts the query. Then the offset is \<open>(p - 1) * l\<close>. When
  the filter is built, the rows rendered are the matching rows, newest first, from that
  offset on and at most \<open>l\<close> of them; the current page is \<open>p\<close>; and \<open>totalPages\<close> is the
  ceiling of the number of matching rows over \<open>l\<close>, the least number of pages of \<open>l\<close>
  rows that hold them all. When building the filter throws (a \<open>q\<close> that has no string),
  no query is made and the listing is rendered empty with the error message. The numbers
  stay within \<open>2^53\<close>, where JavaScript's arithmetic is the integers'.
\<close>

theorem home_pagination:
  assumes page: "parseInt (hq_page query) = Inr (Some p)" "1 \<le> p"
    and limit: "parseInt (hq_limit query) = Inr (Some l)" "1 \<le> l"
    and safe: "p * l \<le> 2 ^ 53" "int (length (user_rows w)) \<le> 2 ^ 53"
    and ok: "calls_ok 1 w"
  shows "home_offset query = Inr ((p - 1) * l) \<and>
         (home_where query = Inr wh \<longrightarrow>
            (let matching = filter (user_matches wh) (user_rows w);
                 count = int (length matching);
                 rows = take (nat l) (drop (nat ((p - 1) * l))
                          (sort_key (\<lambda>u. - u_createdAt u) matching));
                 pages = \<lceil>real_of_int count / real_of_int l\<rceil>
             in home query w =
                  (Inr (Render ''home''
                          (empty_view
                             \<lparr>vd_users := Some rows, vd_currentPage := Some p,
                              vd_totalPages := Some (Num pages), vd_q := hq_q query,
                              vd_newsletter := hq_newsletter query\<rparr>)),
                   w\<lparr>faults := tl (faults w)\<rparr>) \<and>
                int (length rows) \<le> l \<and>
                count \<le> pages * l \<and> (pages - 1) * l < count)) \<and>
         (home_where query = Inl e \<longrightarrow>
            home query w =
              (Inr (Render ''home''
                      (empty_view
                         \<lparr>vd_users := Some [],
                          vd_error := Some (lit ''Erro ao carregar '' @ usuario @ lit ''s'')\<rparr>)),
               w\<lparr>console := console w @
                    [LogError (lit ''Erro ao carregar '' @ usuario @ lit ''s:'') e]\<rparr>))"
proof (intro conjI impI)
  have pg: "home_page query = Inr p"
    using page by (simp add: home_page_def or_default_def bind_result_def)
  have lm: "home_limit query = Inr l"
    using limit by (simp add: home_limit_def or_default_def bind_result_def)
  show "home_offset query = Inr ((p - 1) * l)"
    by (simp add: home_offset_def pg lm bind_result_def)
  {
    assume wh: "home_where query = Inr wh"
    from ok have ok': "calls_ok (Suc 0) w" by simp
    let ?m = "filter (user_matches wh) (user_rows w)"
    let ?rows = "take (nat l) (drop (nat ((p - 1) * l)) (sort_key (\<lambda>u. - u_createdAt u) ?m))"
    let ?pages = "\<lceil>real_of_int (int (length ?m)) / real_of_int l\<rceil>"
    have run: "home query w =
       (Inr (Render ''home''
               (empty_view
                  \<lparr>vd_users := Some ?rows, vd_currentPage := Some p,
                   vd_totalPages := Some (Num ?pages), vd_q := hq_q query,
                   vd_newsletter := hq_newsletter query\<rparr>)),
        w\<lparr>faults := tl (faults w)\<rparr>)"
      using limit(2)
      by (simp add: home_built [OF pg lm wh] io_defs User_findAndCountAll_def
          storage_call_ok [OF ok'] Let_def math_ceil_div_def)
    have len: "int (length ?rows) \<le> l"
      using limit(2) by simp
    have cp: "int (length ?m) \<le> ?pages * l \<and> (?pages - 1) * l < int (length ?m)"
      using ceil_pages [of l "int (length ?m)"] limit(2) by simp
    from run len cp
    show "let matching = filter (user_matches wh) (user_rows w);
              count = int (length matching);
              rows = take (nat l) (drop (nat ((p - 1) * l))
                       (sort_key (\<lambda>u. - u_createdAt u) matching));
              pages = \<lceil>real_of_int count / real_of_int l\<rceil>
          in home query w =
               (Inr (Render ''home''
                       (empty_view
                          \<lparr>vd_users := Some rows, vd_currentPage := Some p,
                           vd_totalPages := Some (Num pages), vd_q := hq_q query,
                           vd_newsletter := hq_newsletter query\<rparr>)),
                w\<lparr>faults := tl (faults w)\<rparr>) \<and>
             int (length rows) \<le> l \<and>
             count \<le> pages * l \<and> (pages - 1) * l < count"
      unfolding Let_def by blast
  }
  {
    assume "home_where query = Inl e"
    then show "home query w =
              (Inr (Render ''home''
                      (empty_view
                         \<lparr>vd_users := Some [],
                          vd_error := Some (lit ''Erro ao carregar '' @ usuario @ lit ''s'')\<rparr>)),
               w\<lparr>console := console w @
                    [LogError (lit ''Erro ao carregar '' @ usuario @ lit ''s:'') e]\<rparr>)"
      by (rule home_where_throws [OF pg lm])
  }
qed

text \<open>
  Page 2 with 2 rows a page of the five users: offset 2, the third and fourth newest users
  (ids 3 and 2), three pages; the same with \<open>newsletter=true\<close>, which two users match;
  and a \<open>q\<close> that is an object with a \<open>toString\<close> property of its own.
\<close>

theorem home_pagination_witness:
  "parseInt (JStr (lit ''2'')) = Inr (Some 2) \<and>
   home_offset \<lparr>hq_page = JStr (lit ''2''), hq_limit = JStr (lit ''2''), hq_q = JUndefined,
                hq_newsletter = JUndefined\<rparr> = Inr 2 \<and>
   home \<lparr>hq_page = JStr (lit ''2''), hq_limit = JStr (lit ''2''), hq_q = JUndefined,
         hq_newsletter = JUndefined\<rparr> sample_world =
     (Inr (Render ''home''
             (empty_view
                \<lparr>vd_users := Some [user_rows sample_world ! 2, user_rows sample_world ! 1],
                 vd_currentPage := Some 2, vd_totalPages := Some (Num 3)\<rparr>)),
      sample_world) \<and>
   parseInt (JStr (lit ''1'')) = Inr (Some 1) \<and>
   home \<lparr>hq_page = JStr (lit ''1''), hq_limit = JStr (lit ''2''), hq_q = JUndefined,
         hq_newsletter = JStr (lit ''true'')\<rparr> sample_world =
     (Inr (Render ''home''
             (empty_view
                \<lparr>vd_users := Some [user_rows sample_world ! 3, user_rows sample_world ! 1],
                 vd_currentPage := Some 1, vd_totalPages := Some (Num 1),
                 vd_newsletter := JStr (lit ''true'')\<rparr>)),
      sample_world) \<and>
   home \<lparr>hq_page = JStr (lit ''1''), hq_limit = JStr (lit ''2''),
         hq_q = JObj [(lit ''toString'', JStr (lit ''1''))],
         hq_newsletter = JUndefined\<rparr> sample_world =
     (Inr (Render ''home''
             (empty_view
                \<lparr>vd_users := Some [],
                 vd_error := Some (lit ''Erro ao carregar '' @ usuario @ lit ''s'')\<rparr>)),
      sample_world
        \<lparr>console :=
           [LogError (lit ''Erro ao carregar '' @ usuario @ lit ''s:'')
              (TypeError (lit ''Cannot convert object to primitive value''))]\<rparr>)"
proof -
  have p2: "parseInt (JStr (lit ''2'')) = Inr (Some 2)"
    by (simp add: parseInt_def parseInt_string_def digit_val_def eval_defs)
  have p1: "parseInt (JStr (lit ''1'')) = Inr (Some 1)"
    by (simp add: parseInt_def parseInt_string_def digit_val_def eval_defs)
  have ok: "calls_ok 1 sample_world" by (simp add: eval_defs)
  have c1: "\<lceil>(5::real) / 2\<rceil> = 3" by linarith
  have c2: "\<lceil>(2::real) / 2\<rceil> = 1" by simp
  from home_pagination
         [of "\<lparr>hq_page = JStr (lit ''2''), hq_limit = JStr (lit ''2''), hq_q = JUndefined,
               hq_newsletter = JUndefined\<rparr>" 2 2 sample_world
             "\<lparr>w_name_like = None, w_newsletter = None\<rparr>"]
       home_pagination
         [of "\<lparr>hq_page = JStr (lit ''1''), hq_limit = JStr (lit ''2''), hq_q = JUndefined,
               hq_newsletter = JStr (lit ''true'')\<rparr>" 1 2 sample_world
             "\<lparr>w_name_like = None, w_newsletter = Some True\<rparr>"]
       home_pagination
         [of "\<lparr>hq_page = JStr (lit ''1''), hq_limit = JStr (lit ''2''),
               hq_q = JObj [(lit ''toString'', JStr (lit ''1''))],
               hq_newsletter = JUndefined\<rparr>" 1 2 sample_world _
             "TypeError (lit ''Cannot convert object to primitive value'')"]
       p1 p2 ok
  show ?thesis
    by (simp add: c1 c2 home_where_def user_matches_def empty_view_def eval_defs)
qed

text \<open>
  Claim C9. When the storage rejects the listing query, the handler does not throw: it
  writes the error to the console and renders the listing with an empty user list and the
  generic error message. The response is the same when, with that rejection ahead, the
  handler's constants throw before the query is made.
\<close>

theorem home_storage_failure:
  assumes "faults w = Some m # fs"
  shows "fst (home query w) =
           Inr (Render ''home''
                  (empty_view
                     \<lparr>vd_users := Some [],
                      vd_error := Some (lit ''Erro ao carregar '' @ usuario @ lit ''s'')\<rparr>)) \<and>
         (home_offset query = Inr offset \<and> home_where query = Inr wh \<longrightarrow>
            home query w =
              (Inr (Render ''home''
                      (empty_view
                         \<lparr>vd_users := Some [],
                          vd_error := Some (lit ''Erro ao carregar '' @ usuario @ lit ''s'')\<rparr>)),
               w\<lparr>faults := fs,
                 console := console w @
                   [LogError (lit ''Erro ao carregar '' @ usuario @ lit ''s:'')
                      (StorageError m)]\<rparr>))"
proof (intro conjI impI)
  show "fst (home query w) =
           Inr (Render ''home''
                  (empty_view
                     \<lparr>vd_users := Some [],
                      vd_error := Some (lit ''Erro ao carregar '' @ usuario @ lit ''s'')\<rparr>))"
    by (rule home_error_view [OF assms])
next
  assume a: "home_offset query = Inr offset \<and> home_where query = Inr wh"
  then obtain p l where pg: "home_page query = Inr p" and lm: "home_limit query = Inr l"
    by (auto simp: home_offset_def bind_result_def split: sum.splits)
  from a have wh: "home_where query = Inr wh" by simp
  show "home query w =
              (Inr (Render ''home''
                      (empty_view
                         \<lparr>vd_users := Some [],
                          vd_error := Some (lit ''Erro ao carregar '' @ usuario @ lit ''s'')\<rparr>)),
               w\<lparr>faults := fs,
                 console := console w @
                   [LogError (lit ''Erro ao carregar '' @ usuario @ lit ''s:'')
                      (StorageError m)]\<rparr>)"
    by (simp add: home_built [OF pg lm wh] io_defs User_findAndCountAll_def
        storage_call_fails [OF assms])
qed

theorem home_storage_failure_witness:
  "home_offset \<lparr>hq_page = JStr (lit ''2''), hq_limit = JStr (lit ''2''),
                hq_q = JStr (lit ''a''), hq_newsletter = JUndefined\<rparr> = Inr 2 \<and>
   home_where \<lparr>hq_page = JStr (lit ''2''), hq_limit = JStr (lit ''2''),
               hq_q = JStr (lit ''a''), hq_newsletter = JUndefined\<rparr> =
     Inr \<lparr>w_name_like = Some (lit ''%a%''), w_newsletter = None\<rparr> \<and>
   home \<lparr>hq_page = JStr (lit ''2''), hq_limit = JStr (lit ''2''), hq_q = JStr (lit ''a''),
         hq_newsletter = JUndefined\<rparr>
     (sample_world\<lparr>faults := [Some (lit ''connection lost'')]\<rparr>) =
   (Inr (Render ''home''
           (empty_view
              \<lparr>vd_users := Some [],
               vd_error := Some (lit ''Erro ao carregar '' @ usuario @ lit ''s'')\<rparr>)),
    sample_world
      \<lparr>console :=
         [LogError (lit ''Erro ao carregar '' @ usuario @ lit ''s:'')
            (StorageError (lit ''connection lost''))]\<rparr>)"
proof -
  let ?q = "\<lparr>hq_page = JStr (lit ''2''), hq_limit = JStr (lit ''2''), hq_q = JStr (lit ''a''),
             hq_newsletter = JUndefined\<rparr>"
  have off: "home_offset ?q = Inr 2"
    by (simp add: home_offset_def home_page_def home_limit_def or_default_def parseInt_def
        parseInt_string_def digit_val_def eval_defs)
  have wh: "home_where ?q = Inr \<lparr>w_name_like = Some (lit ''%a%''), w_newsletter = None\<rparr>"
    by (simp add: home_where_def eval_defs)
  from home_storage_failure
    [of "sample_world\<lparr>faults := [Some (lit ''connection lost'')]\<rparr>" "lit ''connection lost''"
        "[]" ?q 2 "\<lparr>w_name_like = Some (lit ''%a%''), w_newsletter = None\<rparr>"] off wh
  show ?thesis by (simp add: sample_world_def)
qed



section \<open>Creating a user\<close>

lemma user_data_of_strings:
  assumes "name = JStr s"
    and "\<not> truthy occupation \<or> (\<exists>t. occupation = JStr t)"
  shows "user_data_of name occupation newsletter =
           Inr \<lparr>ud_name = trim s,
                ud_occupation =
                  (case occupation of
                     JStr t \<Rightarrow> if t = [] then None else Some (trim t)
                   | _ \<Rightarrow> None),
                ud_newsletter = (newsletter = JStr (lit ''on''))\<rparr>"
  using assms by (cases occupation) (auto simp: user_data_of_def trim_or_null_def)

lemma long_enough:
  assumes "n \<le> length (trim s)" and "0 < n"
  shows "absent_or_shorter x (JStr s) n = Inr False"
proof -
  from assms have "s \<noteq> []" by (auto simp: trim_def)
  with assms show ?thesis by (simp add: absent_or_shorter_def)
qed

text \<open>
  Claim C3. A create request whose name is a string of at least 2 code units after
  trimming, and whose occupation is absent (not sent, or empty: what the source's
  \<open>occupation ? occupation.trim() : null\<close> takes as absent) or a string, stores, when the
  storage accepts the call, one new row with the trimmed name, the trimmed occupation or
  \<open>null\<close> when it is absent, and newsletter true exactly when the submitted value is the
  string \<open>on\<close>; the response is a redirect to \<open>/\<close>. No other row changes.
\<close>

theorem users_create_persists:
  assumes name: "b_name body = JStr s" "2 \<le> length (trim s)"
    and occ: "\<not> truthy (b_occupation body) \<or> (\<exists>t. b_occupation body = JStr t)"
    and ok: "calls_ok 1 w"
  shows "users_create body w =
           (let user = \<lparr>u_id = next_user_id w, u_name = trim s,
                         u_occupation =
                           (case b_occupation body of
                              JStr t \<Rightarrow> if t = [] then None else Some (trim t)
                            | _ \<Rightarrow> None),
                         u_newsletter = (b_newsletter body = JStr (lit ''on'')),
                         u_createdAt = clock w\<rparr>
            in (Inr (Redirect (lit ''/'')),
                w\<lparr>faults := tl (faults w),
                  user_rows := user_rows w @ [user],
                  next_user_id := Suc (next_user_id w),
                  console := console w @ [LogUser (Usuario @ lit '' criado:'') user]\<rparr>))"
proof -
  have inv: "absent_or_shorter ''name'' (b_name body) 2 = Inr False"
    using name long_enough [of 2 s] by simp
  from ok have ok': "calls_ok (Suc 0) w" by simp
  show ?thesis
    by (simp add: users_create_def io_defs Let_def inv user_data_of_strings [OF name(1) occ]
        User_create_def storage_call_ok [OF ok'])
qed

text \<open>
  The spec's example: name \<open>"  Bob  "\<close>, occupation and newsletter not sent; the new row
  gets the next id, 6, and the time of the world, 100.
\<close>

theorem users_create_persists_witness:
  "2 \<le> length (trim (lit ''  Bob  '')) \<and>
   users_create
     \<lparr>b_id = JUndefined, b_name = JStr (lit ''  Bob  ''), b_occupation = JUndefined,
      b_newsletter = JUndefined\<rparr> sample_world =
   (Inr (Redirect (lit ''/'')),
    sample_world
      \<lparr>user_rows :=
         user_rows sample_world @
         [\<lparr>u_id = 6, u_name = lit ''Bob'', u_occupation = None, u_newsletter = False,
           u_createdAt = 100\<rparr>],
       next_user_id := 7,
       console :=
         [LogUser (Usuario @ lit '' criado:'')
            \<lparr>u_id = 6, u_name = lit ''Bob'', u_occupation = None, u_newsletter = False,
             u_createdAt = 100\<rparr>]\<rparr>)"
  using users_create_persists
    [of "\<lparr>b_id = JUndefined, b_name = JStr (lit ''  Bob  ''), b_occupation = JUndefined,
          b_newsletter = JUndefined\<rparr>" "lit ''  Bob  ''" sample_world]
  by (simp add: eval_defs)

text \<open>
  Claim C4. A create request whose name is absent (falsy: not sent or empty) or a string
  shorter than 2 code units after trimming leaves the world as it was (no row is stored,
  no storage call is made) and renders the create form again with the validation message
  and the submitted name, occupation and newsletter as they came, untrimmed.
\<close>

theorem users_create_rejects_short_name:
  assumes "\<not> truthy (b_name body) \<or> (\<exists>s. b_name body = JStr s \<and> length (trim s) < 2)"
  shows "users_create body w =
           (Inr (Render ''adduser''
                   (empty_view
                      \<lparr>vd_error := Some (lit ''Nome deve ter pelo menos 2 caracteres''),
                       vd_formData :=
                         Some \<lparr>b_id = JUndefined, b_name = b_name body,
                               b_occupation = b_occupation body,
                               b_newsletter = b_newsletter body\<rparr>\<rparr>)), w)"
  using assms
  by (auto simp: users_create_def io_defs absent_or_shorter_def Let_def)

text \<open>
  The spec's example, the one-character name \<open>"A"\<close>, here with spaces around it; and a
  request with no name at all.
\<close>

theorem users_create_rejects_short_name_witness:
  "length (trim (lit '' A '')) < 2 \<and>
   users_create
     \<lparr>b_id = JUndefined, b_name = JStr (lit '' A ''), b_occupation = JStr (lit '' dev ''),
      b_newsletter = JStr (lit ''on'')\<rparr> sample_world =
   (Inr (Render ''adduser''
           (empty_view
              \<lparr>vd_error := Some (lit ''Nome deve ter pelo menos 2 caracteres''),
               vd_formData :=
                 Some \<lparr>b_id = JUndefined, b_name = JStr (lit '' A ''),
                       b_occupation = JStr (lit '' dev ''),
                       b_newsletter = JStr (lit ''on'')\<rparr>\<rparr>)),
    sample_world) \<and>
   users_create
     \<lparr>b_id = JUndefined, b_name = JUndefined, b_occupation = JUndefined,
      b_newsletter = JUndefined\<rparr> sample_world =
   (Inr (Render ''adduser''
           (empty_view
              \<lparr>vd_error := Some (lit ''Nome deve ter pelo menos 2 caracteres''),
               vd_formData :=
                 Some \<lparr>b_id = JUndefined, b_name = JUndefined, b_occupation = JUndefined,
                       b_newsletter = JUndefined\<rparr>\<rparr>)),
    sample_world)"
  using users_create_rejects_short_name
    [of "\<lparr>b_id = JUndefined, b_name = JStr (lit '' A ''), b_occupation = JStr (lit '' dev ''),
          b_newsletter = JStr (lit ''on'')\<rparr>" sample_world]
    users_create_rejects_short_name
    [of "\<lparr>b_id = JUndefined, b_name = JUndefined, b_occupation = JUndefined,
          b_newsletter = JUndefined\<rparr>" sample_world]
  by (simp add: trim_def lit_def is_ws_def)

section \<open>Updating a user\<close>

text \<open>
  Claim C5. Take an update request whose id has a string (written \<open>i\<close>; its numbers
  within \<open>2^53\<close>). If its name is absent (falsy) or a string shorter than 2 code units
  after trimming, nothing changes and the answer is a redirect to \<open>/users/edit/\<close>
  followed by \<open>i\<close>, with no message. If its name is a string of at least 2 code units
  after trimming (its occupation absent or a string), then, once the storage accepts the
  call, name, occupation and newsletter of exactly the rows whose id matches the submitted
  id are rewritten, every other row stays as it was, and the answer is a redirect to
  \<open>/\<close>, also when no row matches.
\<close>

theorem users_update_behaviour:
  assumes id: "toString (b_id body) = Inr i" "safe_numbers (b_id body)"
  shows
  "(\<not> truthy (b_name body) \<or> (\<exists>s. b_name body = JStr s \<and> length (trim s) < 2) \<longrightarrow>
      users_update body w = (Inr (Redirect (lit ''/users/edit/'' @ i)), w)) \<and>
   (b_name body = JStr s \<and> 2 \<le> length (trim s) \<and>
    (\<not> truthy (b_occupation body) \<or> (\<exists>t. b_occupation body = JStr t)) \<and>
    calls_ok 1 w \<longrightarrow>
      users_update body w =
        (Inr (Redirect (lit ''/'')),
         w\<lparr>faults := tl (faults w),
           user_rows :=
             map (\<lambda>u. if key_eq (b_id body) (JNum (int (u_id u)))
                       then u\<lparr>u_name := trim s,
                              u_occupation :=
                                (case b_occupation body of
                                   JStr t \<Rightarrow> if t = [] then None else Some (trim t)
                                 | _ \<Rightarrow> None),
                              u_newsletter := (b_newsletter body = JStr (lit ''on''))\<rparr>
                       else u) (user_rows w),
           console :=
             console w @
             (if \<exists>u \<in> set (user_rows w). key_eq (b_id body) (JNum (int (u_id u)))
              then [Log (Usuario @ lit '' '' @ i @ lit '' atualizado com sucesso'')]
              else [])\<rparr>))"
proof (intro conjI impI)
  assume "\<not> truthy (b_name body) \<or> (\<exists>s. b_name body = JStr s \<and> length (trim s) < 2)"
  then show "users_update body w = (Inr (Redirect (lit ''/users/edit/'' @ i)), w)"
    using id(1) by (auto simp: users_update_def io_defs absent_or_shorter_def Let_def)
next
  assume a: "b_name body = JStr s \<and> 2 \<le> length (trim s) \<and>
        (\<not> truthy (b_occupation body) \<or> (\<exists>t. b_occupation body = JStr t)) \<and>
        calls_ok 1 w"
  then have name: "b_name body = JStr s"
    and occ: "\<not> truthy (b_occupation body) \<or> (\<exists>t. b_occupation body = JStr t)"
    by simp_all
  have inv: "absent_or_shorter ''name'' (b_name body) 2 = Inr False"
    using a long_enough [of 2 s] by simp
  from a have ok': "calls_ok (Suc 0) w" by simp
  show "users_update body w =
        (Inr (Redirect (lit ''/'')),
         w\<lparr>faults := tl (faults w),
           user_rows :=
             map (\<lambda>u. if key_eq (b_id body) (JNum (int (u_id u)))
                       then u\<lparr>u_name := trim s,
                              u_occupation :=
                                (case b_occupation body of
                                   JStr t \<Rightarrow> if t = [] then None else Some (trim t)
                                 | _ \<Rightarrow> None),
                              u_newsletter := (b_newsletter body = JStr (lit ''on''))\<rparr>
                       else u) (user_rows w),
           console :=
             console w @
             (if \<exists>u \<in> set (user_rows w). key_eq (b_id body) (JNum (int (u_id u)))
              then [Log (Usuario @ lit '' '' @ i @ lit '' atualizado com sucesso'')]
              else [])\<rparr>)"
    by (simp add: users_update_def io_defs Let_def inv user_data_of_strings [OF name occ]
        User_update_def storage_call_ok [OF ok'] filter_none_iff id(1))
qed

text \<open>
  The spec's scenario, id 5 with the empty name; then user 2 renamed with an empty
  occupation and the newsletter box ticked; then the same request for id 9, which no
  user has.
\<close>

theorem users_update_behaviour_witness:
  "toString (JStr (lit ''5'')) = Inr (lit ''5'') \<and> safe_numbers (JStr (lit ''5'')) \<and>
   users_update
     \<lparr>b_id = JStr (lit ''5''), b_name = JStr [], b_occupation = JUndefined,
      b_newsletter = JUndefined\<rparr> sample_world =
   (Inr (Redirect (lit ''/users/edit/5'')), sample_world) \<and>
   2 \<le> length (trim (lit '' Bia '')) \<and>
   users_update
     \<lparr>b_id = JStr (lit ''2''), b_name = JStr (lit '' Bia ''), b_occupation = JStr [],
      b_newsletter = JStr (lit ''on'')\<rparr> sample_world =
   (Inr (Redirect (lit ''/'')),
    sample_world
      \<lparr>user_rows :=
         (user_rows sample_world)
           [1 := \<lparr>u_id = 2, u_name = lit ''Bia'', u_occupation = None, u_newsletter = True,
                  u_createdAt = 20\<rparr>],
       console := [Log (Usuario @ lit '' 2 atualizado com sucesso'')]\<rparr>) \<and>
   users_update
     \<lparr>b_id = JStr (lit ''9''), b_name = JStr (lit '' Bia ''), b_occupation = JStr [],
      b_newsletter = JStr (lit ''on'')\<rparr> sample_world =
   (Inr (Redirect (lit ''/'')), sample_world)"
  using users_update_behaviour
    [where body = "\<lparr>b_id = JStr (lit ''5''), b_name = JStr [], b_occupation = JUndefined,
                    b_newsletter = JUndefined\<rparr>"
       and i = "lit ''5''" and w = sample_world]
    users_update_behaviour
    [where body = "\<lparr>b_id = JStr (lit ''2''), b_name = JStr (lit '' Bia ''),
                    b_occupation = JStr [], b_newsletter = JStr (lit ''on'')\<rparr>"
       and i = "lit ''2''" and s = "lit '' Bia ''" and w = sample_world]
    users_update_behaviour
    [where body = "\<lparr>b_id = JStr (lit ''9''), b_name = JStr (lit '' Bia ''),
                    b_occupation = JStr [], b_newsletter = JStr (lit ''on'')\<rparr>"
       and i = "lit ''9''" and s = "lit '' Bia ''" and w = sample_world]
  by (simp add: eval_defs)

text \<open>
  What the hypothesis on the id leaves out: an id that is an object with a \<open>toString\<close>
  property of its own has no string. With a short name the first template literal throws,
  and so does the one in the \<open>catch\<close> block: the handler ends with the TypeError and
  sends no response. Nothing is stored.
\<close>

lemma users_update_unwritable_id:
  "users_update
     \<lparr>b_id = JObj [(lit ''toString'', JNum 1)], b_name = JStr [], b_occupation = JUndefined,
      b_newsletter = JUndefined\<rparr> sample_world =
   (Inl (TypeError (lit ''Cannot convert object to primitive value'')),
    sample_world
      \<lparr>console :=
         [LogError (lit ''Erro ao atualizar '' @ usuario @ lit '':'')
            (TypeError (lit ''Cannot convert object to primitive value''))]\<rparr>)"
  by (simp add: users_update_def io_defs absent_or_shorter_def Let_def sample_world_def)

section \<open>Looking a user up\<close>

text \<open>
  Claim C6. When no user has the requested id, the detail view is rendered with the
  message that the user was not found, and the edit route redirects to \<open>/\<close>. When the
  lookup is rejected by the storage, the error is written to the console, the detail view
  is rendered with an error message, and the edit route redirects to \<open>/\<close>.
\<close>

theorem users_show_edit_fallbacks:
  "((\<forall>u \<in> set (user_rows w). \<not> key_eq (JStr id') (JNum (int (u_id u)))) \<and> calls_ok 1 w \<longrightarrow>
      users_show id' w =
        (Inr (Render ''userview''
                (empty_view
                   \<lparr>vd_error := Some (Usuario @ lit '' '' @ nao @ lit '' encontrado'')\<rparr>)),
         w\<lparr>faults := tl (faults w)\<rparr>) \<and>
      users_edit id' w = (Inr (Redirect (lit ''/'')), w\<lparr>faults := tl (faults w)\<rparr>)) \<and>
   (faults w = Some m # fs \<longrightarrow>
      users_show id' w =
        (Inr (Render ''userview''
                (empty_view\<lparr>vd_error := Some (lit ''Erro ao carregar '' @ usuario)\<rparr>)),
         w\<lparr>faults := fs,
           console := console w @
             [LogError (lit ''Erro ao buscar '' @ usuario @ lit '':'') (StorageError m)]\<rparr>) \<and>
      users_edit id' w =
        (Inr (Redirect (lit ''/'')),
         w\<lparr>faults := fs,
           console := console w @
             [LogError (lit ''Erro ao buscar '' @ usuario @ lit '' para '' @ edicao @ lit '':'')
                (StorageError m)]\<rparr>))"
proof (intro conjI impI)
  assume a: "(\<forall>u \<in> set (user_rows w). \<not> key_eq (JStr id') (JNum (int (u_id u)))) \<and>
             calls_ok 1 w"
  then have none: "filter (\<lambda>u. key_eq (JStr id') (JNum (int (u_id u)))) (user_rows w) = []"
    by (simp add: filter_empty_conv)
  from a have ok': "calls_ok (Suc 0) w" by simp
  show "users_show id' w =
        (Inr (Render ''userview''
                (empty_view
                   \<lparr>vd_error := Some (Usuario @ lit '' '' @ nao @ lit '' encontrado'')\<rparr>)),
         w\<lparr>faults := tl (faults w)\<rparr>)"
    by (simp add: users_show_def io_defs User_findByPk_def storage_call_ok [OF ok'] none)
  show "users_edit id' w = (Inr (Redirect (lit ''/'')), w\<lparr>faults := tl (faults w)\<rparr>)"
    by (simp add: users_edit_def io_defs User_findByPk_def storage_call_ok [OF ok'] none)
next
  assume f: "faults w = Some m # fs"
  show "users_show id' w =
        (Inr (Render ''userview''
                (empty_view\<lparr>vd_error := Some (lit ''Erro ao carregar '' @ usuario)\<rparr>)),
         w\<lparr>faults := fs,
           console := console w @
             [LogError (lit ''Erro ao buscar '' @ usuario @ lit '':'') (StorageError m)]\<rparr>)"
    by (simp add: users_show_def io_defs User_findByPk_def storage_call_fails [OF f])
  show "users_edit id' w =
        (Inr (Redirect (lit ''/'')),
         w\<lparr>faults := fs,
           console := console w @
             [LogError (lit ''Erro ao buscar '' @ usuario @ lit '' para '' @ edicao @ lit '':'')
                (StorageError m)]\<rparr>)"
    by (simp add: users_edit_def io_defs User_findByPk_def storage_call_fails [OF f])
qed

text \<open>
  Id 9, which no user has; then id 1, which a user has, with the lookup rejected.
\<close>

theorem users_show_edit_fallbacks_witness:
  "users_show (lit ''9'') sample_world =
     (Inr (Render ''userview''
             (empty_view
                \<lparr>vd_error := Some (Usuario @ lit '' '' @ nao @ lit '' encontrado'')\<rparr>)),
      sample_world) \<and>
   users_edit (lit ''9'') sample_world = (Inr (Redirect (lit ''/'')), sample_world) \<and>
   users_show (lit ''1'') (sample_world\<lparr>faults := [Some (lit ''timeout'')]\<rparr>) =
     (Inr (Render ''userview''
             (empty_view\<lparr>vd_error := Some (lit ''Erro ao carregar '' @ usuario)\<rparr>)),
      sample_world
        \<lparr>console :=
           [LogError (lit ''Erro ao buscar '' @ usuario @ lit '':'')
              (StorageError (lit ''timeout''))]\<rparr>) \<and>
   users_edit (lit ''1'') (sample_world\<lparr>faults := [Some (lit ''timeout'')]\<rparr>) =
     (Inr (Redirect (lit ''/'')),
      sample_world
        \<lparr>console :=
           [LogError (lit ''Erro ao buscar '' @ usuario @ lit '' para '' @ edicao @ lit '':'')
              (StorageError (lit ''timeout''))]\<rparr>)"
  using users_show_edit_fallbacks [of sample_world "lit ''9''"]
    users_show_edit_fallbacks
      [of "sample_world\<lparr>faults := [Some (lit ''timeout'')]\<rparr>" "lit ''1''" "lit ''timeout''" "[]"]
  by (simp add: eval_defs)

section \<open>Deleting a user\<close>

lemma users_delete_redirects: "fst (users_delete id' w) = Inr (Redirect (lit ''/''))"
  by (simp add: users_delete_def io_defs split: prod.splits sum.splits)

lemma users_delete_ok:
  assumes "calls_ok 2 w"
  shows "snd (users_delete id' w) =
         w\<lparr>faults := tl (tl (faults w)),
           address_rows := filter (\<lambda>a. \<not> key_eq (JStr id') (a_userId a)) (address_rows w),
           user_rows := filter (\<lambda>u. \<not> key_eq (JStr id') (JNum (int (u_id u)))) (user_rows w),
           console := console w @
             (if \<exists>u \<in> set (user_rows w). key_eq (JStr id') (JNum (int (u_id u)))
              then [Log (Usuario @ lit '' '' @ id' @ lit '' e seus '' @ endereco
                         @ lit ''s foram '' @ excluido @ lit ''s'')]
              else [])\<rparr>"
proof -
  from assms have ok1: "calls_ok (Suc (Suc 0)) w" by (simp add: numeral_2_eq_2)
  have ok2: "calls_ok (Suc 0) (w\<lparr>faults := tl (faults w)\<rparr>)" by (rule calls_ok_tl [OF ok1])
  then have ok3: "calls_ok (Suc 0) (w\<lparr>faults := tl (faults w), address_rows := ar\<rparr>)" for ar
    by (simp add: calls_ok_def)
  show ?thesis
    by (simp add: users_delete_def io_defs Address_destroy_def User_destroy_def
        storage_call_ok [OF ok1] storage_call_ok [OF ok3] filter_none_iff)
qed

lemma users_delete_second_fails:
  assumes "faults w = None # Some m # fs"
  shows "address_rows (snd (users_delete id' w)) =
           filter (\<lambda>a. \<not> key_eq (JStr id') (a_userId a)) (address_rows w) \<and>
         user_rows (snd (users_delete id' w)) = user_rows w"
  using assms
  by (simp add: users_delete_def io_defs Address_destroy_def User_destroy_def storage_call_def)

lemma users_delete_first_fails:
  assumes "faults w = Some m # fs"
  shows "address_rows (snd (users_delete id' w)) = address_rows w \<and>
         user_rows (snd (users_delete id' w)) = user_rows w"
  using assms
  by (simp add: users_delete_def io_defs Address_destroy_def User_destroy_def storage_call_def)

text \<open>
  Claim C1. For every id and every world, however many address rows have that id as
  \<open>userId\<close>: the response of the delete route is a redirect to \<open>/\<close>, whether or not a row
  was deleted and whether or not the storage failed. When the storage accepts both calls,
  the address rows with that \<open>userId\<close> are gone, so that none is left that refers to it,
  and the user rows with that id are gone; all other rows stay. The addresses go first:
  when the second call is rejected the addresses are gone and the users are untouched, and
  when the first is rejected nothing is deleted.
\<close>

theorem users_delete_cascade:
  "fst (users_delete id' w) = Inr (Redirect (lit ''/'')) \<and>
   (calls_ok 2 w \<longrightarrow>
      address_rows (snd (users_delete id' w)) =
        filter (\<lambda>a. \<not> key_eq (JStr id') (a_userId a)) (address_rows w) \<and>
      user_rows (snd (users_delete id' w)) =
        filter (\<lambda>u. \<not> key_eq (JStr id') (JNum (int (u_id u)))) (user_rows w) \<and>
      length (filter (\<lambda>a. key_eq (JStr id') (a_userId a))
                (address_rows (snd (users_delete id' w)))) = 0) \<and>
   (faults w = None # Some m # fs \<longrightarrow>
      address_rows (snd (users_delete id' w)) =
        filter (\<lambda>a. \<not> key_eq (JStr id') (a_userId a)) (address_rows w) \<and>
      user_rows (snd (users_delete id' w)) = user_rows w) \<and>
   (faults w = Some m # fs \<longrightarrow>
      address_rows (snd (users_delete id' w)) = address_rows w \<and>
      user_rows (snd (users_delete id' w)) = user_rows w)"
proof (intro conjI impI)
  show "fst (users_delete id' w) = Inr (Redirect (lit ''/''))"
    by (rule users_delete_redirects)
next
  assume ok: "calls_ok 2 w"
  show gone: "address_rows (snd (users_delete id' w)) =
        filter (\<lambda>a. \<not> key_eq (JStr id') (a_userId a)) (address_rows w)"
    by (simp add: users_delete_ok [OF ok])
  show "length (filter (\<lambda>a. key_eq (JStr id') (a_userId a))
                  (address_rows (snd (users_delete id' w)))) = 0"
    by (simp add: gone filter_none_iff)
  show "user_rows (snd (users_delete id' w)) =
        filter (\<lambda>u. \<not> key_eq (JStr id') (JNum (int (u_id u)))) (user_rows w)"
    by (simp add: users_delete_ok [OF ok])
next
  assume f: "faults w = None # Some m # fs"
  from users_delete_second_fails [OF f, of id']
  show "address_rows (snd (users_delete id' w)) =
        filter (\<lambda>a. \<not> key_eq (JStr id') (a_userId a)) (address_rows w)"
    and "user_rows (snd (users_delete id' w)) = user_rows w"
    by simp_all
next
  assume f: "faults w = Some m # fs"
  from users_delete_first_fails [OF f, of id']
  show "address_rows (snd (users_delete id' w)) = address_rows w"
    and "user_rows (snd (users_delete id' w)) = user_rows w"
    by simp_all
qed

text \<open>
  User 1 owns three addresses, user 2 one, user 9 (who does not exist) none; then the
  same deletion of user 1 with the second, and with the first, storage call rejected.
\<close>

theorem users_delete_cascade_witness:
  "length (filter (\<lambda>a. key_eq (JStr (lit ''1'')) (a_userId a)) (address_rows sample_world)) = 3 \<and>
   fst (users_delete (lit ''1'') sample_world) = Inr (Redirect (lit ''/'')) \<and>
   map a_id (address_rows (snd (users_delete (lit ''1'') sample_world))) = [2] \<and>
   map u_id (user_rows (snd (users_delete (lit ''1'') sample_world))) = [2, 3, 4, 5] \<and>
   length (filter (\<lambda>a. key_eq (JStr (lit ''2'')) (a_userId a)) (address_rows sample_world)) = 1 \<and>
   map a_id (address_rows (snd (users_delete (lit ''2'') sample_world))) = [1, 3, 4] \<and>
   map u_id (user_rows (snd (users_delete (lit ''2'') sample_world))) = [1, 3, 4, 5] \<and>
   length (filter (\<lambda>a. key_eq (JStr (lit ''9'')) (a_userId a)) (address_rows sample_world)) = 0 \<and>
   fst (users_delete (lit ''9'') sample_world) = Inr (Redirect (lit ''/'')) \<and>
   map a_id (address_rows (snd (users_delete (lit ''9'') sample_world))) = [1, 2, 3, 4] \<and>
   map u_id (user_rows (snd (users_delete (lit ''9'') sample_world))) = [1, 2, 3, 4, 5] \<and>
   map a_id (address_rows (snd (users_delete (lit ''1'')
       (sample_world\<lparr>faults := [None, Some (lit ''gone'')]\<rparr>)))) = [2] \<and>
   map u_id (user_rows (snd (users_delete (lit ''1'')
       (sample_world\<lparr>faults := [None, Some (lit ''gone'')]\<rparr>)))) = [1, 2, 3, 4, 5] \<and>
   map a_id (address_rows (snd (users_delete (lit ''1'')
       (sample_world\<lparr>faults := [Some (lit ''gone'')]\<rparr>)))) = [1, 2, 3, 4] \<and>
   map u_id (user_rows (snd (users_delete (lit ''1'')
       (sample_world\<lparr>faults := [Some (lit ''gone'')]\<rparr>)))) = [1, 2, 3, 4, 5]"
  using users_delete_cascade [of "lit ''1''" sample_world]
    users_delete_cascade [of "lit ''2''" sample_world]
    users_delete_cascade [of "lit ''9''" sample_world]
    users_delete_cascade [of "lit ''1''" "sample_world\<lparr>faults := [None, Some (lit ''gone'')]\<rparr>"
      "lit ''gone''" "[]"]
    users_delete_cascade [of "lit ''1''" "sample_world\<lparr>faults := [Some (lit ''gone'')]\<rparr>"
      "lit ''gone''" "[]"]
  by (simp add: eval_defs)

section \<open>Creating an address\<close>

lemma address_data_of_strings:
  assumes "street = JStr s" and "city = JStr c"
    and "\<not> truthy number' \<or> (\<exists>n. number' = JStr n)"
  shows "address_data_of street number' city userId =
           Inr \<lparr>ad_street = trim s,
                ad_number =
                  (case number' of
                     JStr n \<Rightarrow> if n = [] then None else Some (trim n)
                   | _ \<Rightarrow> None),
                ad_city = trim c, ad_userId = userId\<rparr>"
  using assms by (cases number') (auto simp: address_data_of_def trim_or_null_def)

text \<open>
  Claim C7. Take an address request whose userId has a string (written \<open>u\<close>; its
  numbers within \<open>2^53\<close>). If its street is absent (falsy) or a string shorter than 5 code
  units after trimming, or its street is a string and its city is absent or a string
  shorter than 2 code units after trimming, nothing is stored and the answer is a redirect
  to \<open>/users/edit/\<close> followed by \<open>u\<close>, with no message. If its street and city are strings
  of at least 5 and 2 code units after trimming (its number absent or a string), then,
  once the storage accepts the call, one row is added with the trimmed street, the trimmed
  number or \<open>null\<close> when it is absent, the trimmed city and the userId as submitted, and
  the answer is the same redirect.
\<close>

theorem address_create_behaviour:
  assumes uid: "toString (ac_userId body) = Inr u" "safe_numbers (ac_userId body)"
  shows
  "((\<not> truthy (ac_street body) \<or> (\<exists>s. ac_street body = JStr s \<and> length (trim s) < 5)) \<or>
    ((\<exists>s. ac_street body = JStr s) \<and>
     (\<not> truthy (ac_city body) \<or> (\<exists>c. ac_city body = JStr c \<and> length (trim c) < 2))) \<longrightarrow>
      address_create body w = (Inr (Redirect (lit ''/users/edit/'' @ u)), w)) \<and>
   (ac_street body = JStr s \<and> 5 \<le> length (trim s) \<and>
    ac_city body = JStr c \<and> 2 \<le> length (trim c) \<and>
    (\<not> truthy (ac_number body) \<or> (\<exists>n. ac_number body = JStr n)) \<and>
    calls_ok 1 w \<longrightarrow>
      address_create body w =
        (let address = \<lparr>a_id = next_address_id w, a_street = trim s,
                         a_number =
                           (case ac_number body of
                              JStr n \<Rightarrow> if n = [] then None else Some (trim n)
                            | _ \<Rightarrow> None),
                         a_city = trim c, a_userId = ac_userId body,
                         a_createdAt = clock w\<rparr>
         in (Inr (Redirect (lit ''/users/edit/'' @ u)),
             w\<lparr>faults := tl (faults w),
               address_rows := address_rows w @ [address],
               next_address_id := Suc (next_address_id w),
               console := console w @ [LogAddress (Endereco @ lit '' criado:'') address]\<rparr>)))"
proof (intro conjI impI)
  assume "(\<not> truthy (ac_street body) \<or> (\<exists>s. ac_street body = JStr s \<and> length (trim s) < 5)) \<or>
    ((\<exists>s. ac_street body = JStr s) \<and>
     (\<not> truthy (ac_city body) \<or> (\<exists>c. ac_city body = JStr c \<and> length (trim c) < 2)))"
  then have "or_else (absent_or_shorter ''street'' (ac_street body) 5)
                (absent_or_shorter ''city'' (ac_city body) 2) = Inr True"
    by (auto simp: or_else_def absent_or_shorter_def split: bool.splits)
  then show "address_create body w = (Inr (Redirect (lit ''/users/edit/'' @ u)), w)"
    by (simp add: address_create_def io_defs Let_def uid(1))
next
  assume a: "ac_street body = JStr s \<and> 5 \<le> length (trim s) \<and>
          ac_city body = JStr c \<and> 2 \<le> length (trim c) \<and>
          (\<not> truthy (ac_number body) \<or> (\<exists>n. ac_number body = JStr n)) \<and>
          calls_ok 1 w"
  then have street: "ac_street body = JStr s" and city: "ac_city body = JStr c"
    and num: "\<not> truthy (ac_number body) \<or> (\<exists>n. ac_number body = JStr n)"
    by simp_all
  have inv: "or_else (absent_or_shorter ''street'' (ac_street body) 5)
                (absent_or_shorter ''city'' (ac_city body) 2) = Inr False"
    using a long_enough [of 5 s] long_enough [of 2 c] by (simp add: or_else_def)
  from a have ok': "calls_ok (Suc 0) w" by simp
  show "address_create body w =
        (let address = \<lparr>a_id = next_address_id w, a_street = trim s,
                         a_number =
                           (case ac_number body of
                              JStr n \<Rightarrow> if n = [] then None else Some (trim n)
                            | _ \<Rightarrow> None),
                         a_city = trim c, a_userId = ac_userId body,
                         a_createdAt = clock w\<rparr>
         in (Inr (Redirect (lit ''/users/edit/'' @ u)),
             w\<lparr>faults := tl (faults w),
               address_rows := address_rows w @ [address],
               next_address_id := Suc (next_address_id w),
               console := console w @ [LogAddress (Endereco @ lit '' criado:'') address]\<rparr>))"
    by (simp add: address_create_def io_defs Let_def inv
        address_data_of_strings [OF street city num] Address_create_def
        storage_call_ok [OF ok'] uid(1))
qed

text \<open>
  The spec's example, the street \<open>"St"\<close>; a good street with the one-letter city \<open>"R"\<close>; and
  a good street and city for user 2 with no number, stored with the next id, 5.
\<close>

theorem address_create_behaviour_witness:
  "toString (JStr (lit ''1'')) = Inr (lit ''1'') \<and> safe_numbers (JStr (lit ''1'')) \<and>
   length (trim (lit ''St'')) < 5 \<and>
   address_create
     \<lparr>ac_userId = JStr (lit ''1''), ac_street = JStr (lit ''St''), ac_number = JUndefined,
      ac_city = JStr (lit ''Rio'')\<rparr> sample_world =
   (Inr (Redirect (lit ''/users/edit/1'')), sample_world) \<and>
   length (trim (lit '' R '')) < 2 \<and>
   address_create
     \<lparr>ac_userId = JStr (lit ''1''), ac_street = JStr (lit ''Rua Nova''),
      ac_number = JUndefined, ac_city = JStr (lit '' R '')\<rparr> sample_world =
   (Inr (Redirect (lit ''/users/edit/1'')), sample_world) \<and>
   5 \<le> length (trim (lit '' Rua Nova '')) \<and> 2 \<le> length (trim (lit '' Rio '')) \<and>
   address_create
     \<lparr>ac_userId = JStr (lit ''2''), ac_street = JStr (lit '' Rua Nova ''),
      ac_number = JUndefined, ac_city = JStr (lit '' Rio '')\<rparr> sample_world =
   (Inr (Redirect (lit ''/users/edit/2'')),
    sample_world
      \<lparr>address_rows :=
         address_rows sample_world @
         [\<lparr>a_id = 5, a_street = lit ''Rua Nova'', a_number = None, a_city = lit ''Rio'',
           a_userId = JStr (lit ''2''), a_createdAt = 100\<rparr>],
       next_address_id := 6,
       console :=
         [LogAddress (Endereco @ lit '' criado:'')
            \<lparr>a_id = 5, a_street = lit ''Rua Nova'', a_number = None, a_city = lit ''Rio'',
             a_userId = JStr (lit ''2''), a_createdAt = 100\<rparr>]\<rparr>)"
  using address_create_behaviour
    [where body = "\<lparr>ac_userId = JStr (lit ''1''), ac_street = JStr (lit ''St''),
                    ac_number = JUndefined, ac_city = JStr (lit ''Rio'')\<rparr>"
       and u = "lit ''1''" and w = sample_world]
    address_create_behaviour
    [where body = "\<lparr>ac_userId = JStr (lit ''1''), ac_street = JStr (lit ''Rua Nova''),
                    ac_number = JUndefined, ac_city = JStr (lit '' R '')\<rparr>"
       and u = "lit ''1''" and w = sample_world]
    address_create_behaviour
    [where body = "\<lparr>ac_userId = JStr (lit ''2''), ac_street = JStr (lit '' Rua Nova ''),
                    ac_number = JUndefined, ac_city = JStr (lit '' Rio '')\<rparr>"
       and u = "lit ''2''" and w = sample_world
       and s = "lit '' Rua Nova ''" and c = "lit '' Rio ''"]
  by (simp add: eval_defs)

text \<open>
  What the hypothesis on the userId leaves out: a userId that is an object with a
  \<open>toString\<close> property of its own has no string. With the street \<open>"St"\<close> the template
  literal of the redirect throws, and so does the one in the \<open>catch\<close> block: the handler
  ends with the TypeError and sends no response. Nothing is stored.
\<close>

lemma address_create_unwritable_userId:
  "address_create
     \<lparr>ac_userId = JObj [(lit ''toString'', JNum 1)], ac_street = JStr (lit ''St''),
      ac_number = JUndefined, ac_city = JStr (lit ''Rio'')\<rparr> sample_world =
   (Inl (TypeError (lit ''Cannot convert object to primitive value'')),
    sample_world
      \<lparr>console :=
         [LogError (lit ''Erro ao criar '' @ endereco @ lit '':'')
            (TypeError (lit ''Cannot convert object to primitive value''))]\<rparr>)"
  by (simp add: address_create_def io_defs absent_or_shorter_def or_else_def Let_def
      sample_world_def trim_def lit_def is_ws_def)

section \<open>Deleting an address\<close>

text \<open>
  Claim C8. Take a delete request whose id and userId have strings (written \<open>i\<close> and
  \<open>u\<close>; their numbers within \<open>2^53\<close>). Once the storage accepts the call, the address
  rows whose id matches the submitted id are deleted and no other row is. The answer is a
  redirect to \<open>/users/edit/\<close> followed by \<open>u\<close> when a userId was supplied (truthy), and to
  \<open>/\<close> otherwise. The submitted userId plays no part in which rows go: with any other
  value in its place, whatever it is, the request leaves the same tables, so an address of
  another user is deleted all the same.
\<close>

theorem address_delete_behaviour:
  assumes ok: "calls_ok 1 w"
    and id: "toString (adl_id body) = Inr i" "safe_numbers (adl_id body)"
    and uid: "toString (adl_userId body) = Inr u" "safe_numbers (adl_userId body)"
  shows "address_delete body w =
           (Inr (Redirect (if truthy (adl_userId body) then lit ''/users/edit/'' @ u
                           else lit ''/'')),
            w\<lparr>faults := tl (faults w),
              address_rows :=
                filter (\<lambda>a. \<not> key_eq (adl_id body) (JNum (int (a_id a)))) (address_rows w),
              console := console w @
                [Log (Endereco @ lit '' '' @ i @ lit '' '' @ excluido)]\<rparr>) \<and>
         address_rows (snd (address_delete (body\<lparr>adl_userId := other\<rparr>) w)) =
           address_rows (snd (address_delete body w)) \<and>
         user_rows (snd (address_delete (body\<lparr>adl_userId := other\<rparr>) w)) =
           user_rows (snd (address_delete body w))"
proof -
  from ok have ok': "calls_ok (Suc 0) w" by simp
  have run: "address_delete body w =
           (Inr (Redirect (if truthy (adl_userId body) then lit ''/users/edit/'' @ u
                           else lit ''/'')),
            w\<lparr>faults := tl (faults w),
              address_rows :=
                filter (\<lambda>a. \<not> key_eq (adl_id body) (JNum (int (a_id a)))) (address_rows w),
              console := console w @
                [Log (Endereco @ lit '' '' @ i @ lit '' '' @ excluido)]\<rparr>)"
    by (simp add: address_delete_def io_defs Let_def Address_destroy_def
        storage_call_ok [OF ok'] id(1) uid(1) bind_result_def)
  have tables: "address_rows (snd (address_delete (body\<lparr>adl_userId := other\<rparr>) w)) =
           filter (\<lambda>a. \<not> key_eq (adl_id body) (JNum (int (a_id a)))) (address_rows w) \<and>
         user_rows (snd (address_delete (body\<lparr>adl_userId := other\<rparr>) w)) = user_rows w"
    by (cases "toString other")
      (simp_all add: address_delete_def io_defs Let_def Address_destroy_def
        storage_call_ok [OF ok'] id(1) bind_result_def)
  from run tables show ?thesis by simp
qed

text \<open>
  Address 2 belongs to user 2 and is deleted on a request that names user 1; the spec's
  scenario, id 9 with no userId, deletes nothing and redirects to \<open>/\<close>.
\<close>

theorem address_delete_behaviour_witness:
  "toString (JStr (lit ''2'')) = Inr (lit ''2'') \<and> safe_numbers (JStr (lit ''2'')) \<and>
   toString (JStr (lit ''1'')) = Inr (lit ''1'') \<and> safe_numbers (JStr (lit ''1'')) \<and>
   a_userId (address_rows sample_world ! 1) = JStr (lit ''2'') \<and>
   address_delete \<lparr>adl_id = JStr (lit ''2''), adl_userId = JStr (lit ''1'')\<rparr> sample_world =
   (Inr (Redirect (lit ''/users/edit/1'')),
    sample_world
      \<lparr>address_rows :=
         [address_rows sample_world ! 0, address_rows sample_world ! 2,
          address_rows sample_world ! 3],
       console := [Log (Endereco @ lit '' 2 '' @ excluido)]\<rparr>) \<and>
   toString (JStr (lit ''9'')) = Inr (lit ''9'') \<and> safe_numbers (JStr (lit ''9'')) \<and>
   toString JUndefined = Inr (lit ''undefined'') \<and> safe_numbers JUndefined \<and>
   address_delete \<lparr>adl_id = JStr (lit ''9''), adl_userId = JUndefined\<rparr> sample_world =
   (Inr (Redirect (lit ''/'')),
    sample_world\<lparr>console := [Log (Endereco @ lit '' 9 '' @ excluido)]\<rparr>)"
  using address_delete_behaviour
    [where w = sample_world
       and body = "\<lparr>adl_id = JStr (lit ''2''), adl_userId = JStr (lit ''1'')\<rparr>"
       and i = "lit ''2''" and u = "lit ''1''"]
    address_delete_behaviour
    [where w = sample_world
       and body = "\<lparr>adl_id = JStr (lit ''9''), adl_userId = JUndefined\<rparr>"
       and i = "lit ''9''" and u = "lit ''undefined''"]
  by (simp add: eval_defs)

text \<open>
  What the hypothesis on the userId leaves out: a userId that is an object with a
  \<open>toString\<close> property of its own has no string. The address is deleted and the console
  line written; then the template literal of the redirect throws, the error is written to
  the console, and the answer is a redirect to \<open>/\<close>.
\<close>

lemma address_delete_unwritable_userId:
  "address_delete
     \<lparr>adl_id = JStr (lit ''2''), adl_userId = JObj [(lit ''toString'', JNum 1)]\<rparr>
     sample_world =
   (Inr (Redirect (lit ''/'')),
    sample_world
      \<lparr>address_rows :=
         [address_rows sample_world ! 0, address_rows sample_world ! 2,
          address_rows sample_world ! 3],
       console :=
         [Log (Endereco @ lit '' 2 '' @ excluido),
          LogError (lit ''Erro ao excluir '' @ endereco @ lit '':'')
            (TypeError (lit ''Cannot convert object to primitive value''))]\<rparr>)"
  by (simp add: address_delete_def io_defs Address_destroy_def storage_call_def eval_defs)

end
